theory Spec2Isabelle
  imports Complex_Main "HOL-Library.Word"
begin

section \<open>The auto-ranged put meta request of aws-c-s3\<close>

text \<open>
  A shallow embedding of \<^verbatim>\<open>source/s3_auto_ranged_put.c\<close>: the multi-part upload state
  machine with its resume support. C structs are records, the request tags and the error codes
  are datatypes, \<^verbatim>\<open>uint32_t\<close> is \<open>32 word\<close>, \<^verbatim>\<open>uint64_t\<close> and \<^verbatim>\<open>size_t\<close> (LP64) are
  \<open>64 word\<close>. A function that mutates the meta request takes the record and returns the
  updated one. A pointer that may be NULL is an \<open>option\<close>.
\<close>

subsection \<open>Error codes and outcomes\<close>

text \<open>
  The \<^verbatim>\<open>int\<close> error codes the file names, and \<open>AWS_ERROR_OTHER\<close> for every code handed
  through from the HTTP, retry and IO layers.
\<close>

datatype aws_error =
    AWS_ERROR_SUCCESS
  | AWS_ERROR_INVALID_ARGUMENT
  | AWS_ERROR_S3_MISSING_UPLOAD_ID
  | AWS_ERROR_S3_LIST_PARTS_PARSE_FAILED
  | AWS_ERROR_S3_RESUMED_PART_CHECKSUM_MISMATCH
  | AWS_ERROR_S3_RESUME_FAILED
  | AWS_ERROR_S3_PAUSED
  | AWS_ERROR_UNKNOWN
  | AWS_ERROR_OTHER int

text \<open>
  What C leaves undefined or answers by ending the process: a failed
  \<^verbatim>\<open>AWS_FATAL_ASSERT\<close>, reading through a NULL pointer, a raw array access outside the
  allocation, a division by zero, a conversion of a \<^verbatim>\<open>double\<close> whose truncated value the
  target type cannot hold.
\<close>

datatype fault =
    Fatal_assert
  | Null_dereference
  | Out_of_bounds
  | Division_by_zero
  | Undefined_conversion

text \<open>
  The result of a fallible function: \<open>Ok\<close> is \<^verbatim>\<open>AWS_OP_SUCCESS\<close> with the values written,
  \<open>Err\<close> is \<^verbatim>\<open>AWS_OP_ERR\<close> (or a NULL result) with the error raised, \<open>Crash\<close> is a fault.
\<close>

datatype 'a outcome = Ok 'a | Err aws_error | Crash fault

subsection \<open>The meta request and the auto-ranged put\<close>

datatype aws_s3_checksum_algorithm =
  AWS_SCA_NONE | AWS_SCA_CRC32C | AWS_SCA_CRC32 | AWS_SCA_SHA1 | AWS_SCA_SHA256

type_synonym bytes = "8 word list"

text \<open>
  The fields of \<^verbatim>\<open>struct aws_s3_meta_request\<close> this file reads and writes. Of the
  initial HTTP message, the request path (\<open>None\<close> when
  \<^verbatim>\<open>aws_http_message_get_request_path\<close> fails) and the headers. A callback
  pointer is the flag "is not NULL"; \<open>finish_result_set\<close> and \<open>finish_result_error_code\<close>
  are \<^verbatim>\<open>synced_data.finish_result_set\<close> and \<^verbatim>\<open>synced_data.finish_result.error_code\<close>.
\<close>

record aws_http_message =
  request_path :: "string option"
  message_headers :: "(string \<times> string) list"

record aws_s3_meta_request =
  initial_request_message :: aws_http_message
  part_size :: "64 word"
  checksum_algorithm :: aws_s3_checksum_algorithm
  progress_callback :: bool
  headers_callback :: bool
  finish_result_set :: bool
  finish_result_error_code :: aws_error

text \<open>
  \<^verbatim>\<open>struct aws_s3_auto_ranged_put\<close>, with the members of \<^verbatim>\<open>synced_data\<close>,
  \<^verbatim>\<open>threaded_update_data\<close> and \<^verbatim>\<open>prepare_data\<close> side by side. \<open>etag_list\<close> is the static
  array list over the zeroed allocation of \<open>total_num_parts\<close> pointers: a slot never set is
  NULL (\<open>None\<close>), and \<^verbatim>\<open>aws_array_list_get_at\<close> beyond the list's length fails exactly where
  the backing slot is still NULL, so the fixed list of options reads as the C list does.
\<close>

record aws_s3_auto_ranged_put =
  base :: aws_s3_meta_request
  upload_id :: "string option"
  content_length :: "64 word"
  next_part_number :: "32 word"
  num_parts_read_from_stream :: "32 word"
  checksums_list :: "bytes list"
  etag_list :: "string option list"
  list_parts_continuation_token :: "string option"
  total_num_parts :: "32 word"
  num_parts_sent :: "32 word"
  num_parts_completed :: "32 word"
  num_parts_successful :: "32 word"
  num_parts_failed :: "32 word"
  needed_response_headers :: "(string \<times> string) list option"
  list_parts_error_code :: aws_error
  create_multipart_upload_error_code :: aws_error
  complete_multipart_upload_error_code :: aws_error
  abort_multipart_upload_error_code :: aws_error
  list_parts_sent :: bool
  list_parts_completed :: bool
  create_multipart_upload_sent :: bool
  create_multipart_upload_completed :: bool
  complete_multipart_upload_sent :: bool
  complete_multipart_upload_completed :: bool
  abort_multipart_upload_sent :: bool
  abort_multipart_upload_completed :: bool

subsection \<open>The finish result\<close>

text \<open>
  Modelled from the spec: \<^verbatim>\<open>aws_s3_meta_request_has_finish_result_synced\<close> of
  \<^verbatim>\<open>s3_meta_request.c\<close>, which is not among the sources. The spec: "When the meta-request
  already has a finish result (failure, cancellation, pause)".
\<close>

definition aws_s3_meta_request_has_finish_result_synced :: "aws_s3_meta_request \<Rightarrow> bool" where
  "aws_s3_meta_request_has_finish_result_synced m = finish_result_set m"

text \<open>
  Modelled from the spec: \<^verbatim>\<open>aws_s3_meta_request_set_fail_synced\<close> of \<^verbatim>\<open>s3_meta_request.c\<close>,
  which is not among the sources. The spec: "Meta-request-terminal errors are captured once in
  \<^verbatim>\<open>synced_data.finish_result\<close> (error, failed request, response status) and never
  overwritten." The failed request it also takes is not modelled.
\<close>

definition aws_s3_meta_request_set_fail_synced ::
  "aws_s3_meta_request \<Rightarrow> aws_error \<Rightarrow> aws_s3_meta_request" where
  "aws_s3_meta_request_set_fail_synced m error_code =
     (if finish_result_set m then m
      else m\<lparr>finish_result_set := True, finish_result_error_code := error_code\<rparr>)"

text \<open>
  Modelled from the spec: \<^verbatim>\<open>aws_s3_meta_request_set_success_synced\<close> of
  \<^verbatim>\<open>s3_meta_request.c\<close>, which is not among the sources. The spec: "Success or failure
  recorded in the meta-request finish result", captured once as a failure is.
\<close>

definition aws_s3_meta_request_set_success_synced :: "aws_s3_meta_request \<Rightarrow> aws_s3_meta_request" where
  "aws_s3_meta_request_set_success_synced m =
     (if finish_result_set m then m
      else m\<lparr>finish_result_set := True, finish_result_error_code := AWS_ERROR_SUCCESS\<rparr>)"

text \<open>The call \<^verbatim>\<open>aws_s3_meta_request_set_fail_synced(meta_request, request, error_code)\<close>
  on the base of an auto-ranged put.\<close>

definition set_fail_synced :: "aws_s3_auto_ranged_put \<Rightarrow> aws_error \<Rightarrow> aws_s3_auto_ranged_put" where
  "set_fail_synced arp error_code =
     arp\<lparr>base := aws_s3_meta_request_set_fail_synced (base arp) error_code\<rparr>"

subsection \<open>The size of a part's body\<close>

text \<open>
  \<^verbatim>\<open>s_compute_request_body_size\<close>: the part size, or for the last part the remainder of the
  content length when there is one. The remainder is taken only for the last part, and
  \<^verbatim>\<open>%\<close> by a part size of zero is undefined.
\<close>

definition s_compute_request_body_size :: "aws_s3_auto_ranged_put \<Rightarrow> 32 word \<Rightarrow> 64 word outcome" where
  "s_compute_request_body_size arp part_number =
     (let request_body_size = part_size (base arp) in
      if part_number = total_num_parts arp then
        (if part_size (base arp) = 0 then Crash Division_by_zero
         else
           let content_remainder = content_length arp mod part_size (base arp) in
           if content_remainder > 0 then Ok content_remainder else Ok request_body_size)
      else Ok request_body_size)"

subsection \<open>Requests\<close>

datatype aws_s3_auto_ranged_put_request_tag =
    AWS_S3_AUTO_RANGED_PUT_REQUEST_TAG_LIST_PARTS
  | AWS_S3_AUTO_RANGED_PUT_REQUEST_TAG_CREATE_MULTIPART_UPLOAD
  | AWS_S3_AUTO_RANGED_PUT_REQUEST_TAG_PART
  | AWS_S3_AUTO_RANGED_PUT_REQUEST_TAG_COMPLETE_MULTIPART_UPLOAD
  | AWS_S3_AUTO_RANGED_PUT_REQUEST_TAG_ABORT_MULTIPART_UPLOAD

text \<open>The flag words are sets of flags: \<^verbatim>\<open>a | b\<close> is the union, \<^verbatim>\<open>(flags & f) != 0\<close> is membership.\<close>

datatype aws_s3_request_flag =
  AWS_S3_REQUEST_FLAG_RECORD_RESPONSE_HEADERS | AWS_S3_REQUEST_FLAG_ALWAYS_SEND

datatype aws_s3_meta_request_update_flag = AWS_S3_META_REQUEST_UPDATE_FLAG_CONSERVATIVE

record aws_s3_request =
  request_tag :: aws_s3_auto_ranged_put_request_tag
  part_number :: "32 word"
  request_flags :: "aws_s3_request_flag set"

definition aws_s3_request_new ::
  "aws_s3_auto_ranged_put_request_tag \<Rightarrow> 32 word \<Rightarrow> aws_s3_request_flag set \<Rightarrow> aws_s3_request" where
  "aws_s3_request_new tag pn flags = \<lparr>request_tag = tag, part_number = pn, request_flags = flags\<rparr>"

subsection \<open>update\<close>

text \<open>
  The loop of \<^verbatim>\<open>s_s3_auto_ranged_put_update\<close> that steps over the parts whose ETag slot is
  already filled: from \<open>etag_index\<close> on, every filled slot advances \<open>next_part_number\<close>, and
  the first empty slot (or the end of the list) ends the loop.
\<close>

function skip_uploaded_parts :: "string option list \<Rightarrow> nat \<Rightarrow> 32 word \<Rightarrow> 32 word" where
  "skip_uploaded_parts etags etag_index npn =
     (if etag_index < length etags then
        (case etags ! etag_index of
           Some etag \<Rightarrow> skip_uploaded_parts etags (Suc etag_index) (npn + 1)
         | None \<Rightarrow> npn)
      else npn)"
  by pat_completeness auto
termination
  by (relation "measure (\<lambda>(etags, etag_index, npn). length etags - etag_index)") auto

declare skip_uploaded_parts.simps [simp del]

text \<open>
  The two exits of the critical section: \<^verbatim>\<open>has_work_remaining\<close> hands the request (if any)
  out, \<^verbatim>\<open>no_work_remaining\<close> records success (unless a finish result stands) and the caller
  goes on to \<^verbatim>\<open>aws_s3_meta_request_finish\<close>.
\<close>

definition has_work_remaining ::
  "aws_s3_auto_ranged_put \<Rightarrow> aws_s3_request option \<Rightarrow>
   (aws_s3_auto_ranged_put \<times> bool \<times> aws_s3_request option) outcome" where
  "has_work_remaining arp request = Ok (arp, True, request)"

definition no_work_remaining ::
  "aws_s3_auto_ranged_put \<Rightarrow> (aws_s3_auto_ranged_put \<times> bool \<times> aws_s3_request option) outcome" where
  "no_work_remaining arp =
     Ok (arp\<lparr>base := aws_s3_meta_request_set_success_synced (base arp)\<rparr>, False, None)"

text \<open>
  \<^verbatim>\<open>s_s3_auto_ranged_put_update\<close>: the result is the updated meta request, the returned
  \<^verbatim>\<open>work_remaining\<close> and \<^verbatim>\<open>*out_request\<close>. \<^verbatim>\<open>int part_index = next_part_number - 1\<close> is
  widened to \<^verbatim>\<open>size_t\<close> with its sign (\<open>scast\<close>).
\<close>

definition s_s3_auto_ranged_put_update ::
  "aws_s3_auto_ranged_put \<Rightarrow> aws_s3_meta_request_update_flag set \<Rightarrow>
   (aws_s3_auto_ranged_put \<times> bool \<times> aws_s3_request option) outcome" where
  "s_s3_auto_ranged_put_update arp flags =
     (if \<not> aws_s3_meta_request_has_finish_result_synced (base arp) then
        (if \<not> list_parts_sent arp then
           has_work_remaining (arp\<lparr>list_parts_sent := True\<rparr>)
             (Some (aws_s3_request_new AWS_S3_AUTO_RANGED_PUT_REQUEST_TAG_LIST_PARTS 0
                {AWS_S3_REQUEST_FLAG_RECORD_RESPONSE_HEADERS}))
         else if \<not> list_parts_completed arp then has_work_remaining arp None
         else if \<not> create_multipart_upload_sent arp then
           has_work_remaining (arp\<lparr>create_multipart_upload_sent := True\<rparr>)
             (Some (aws_s3_request_new AWS_S3_AUTO_RANGED_PUT_REQUEST_TAG_CREATE_MULTIPART_UPLOAD 0
                {AWS_S3_REQUEST_FLAG_RECORD_RESPONSE_HEADERS}))
         else if \<not> create_multipart_upload_completed arp then has_work_remaining arp None
         else if num_parts_sent arp < total_num_parts arp then
           (let part_index = (scast (next_part_number arp - 1) :: 64 word);
                arp1 = arp\<lparr>next_part_number :=
                         skip_uploaded_parts (etag_list arp) (unat part_index) (next_part_number arp)\<rparr>
            in
            if \<not> next_part_number arp1 \<le> total_num_parts arp1 then Crash Fatal_assert
            else if AWS_S3_META_REQUEST_UPDATE_FLAG_CONSERVATIVE \<in> flags
                    \<and> num_parts_sent arp1 - num_parts_completed arp1 > 0 then
              has_work_remaining arp1 None
            else
              has_work_remaining
                (arp1\<lparr>next_part_number := next_part_number arp1 + 1,
                        num_parts_sent := num_parts_sent arp1 + 1\<rparr>)
                (Some ((aws_s3_request_new AWS_S3_AUTO_RANGED_PUT_REQUEST_TAG_PART 0
                          {AWS_S3_REQUEST_FLAG_RECORD_RESPONSE_HEADERS})
                       \<lparr>part_number := next_part_number arp1\<rparr>)))
         else if num_parts_completed arp \<noteq> total_num_parts arp then has_work_remaining arp None
         else if \<not> complete_multipart_upload_sent arp then
           has_work_remaining (arp\<lparr>complete_multipart_upload_sent := True\<rparr>)
             (Some (aws_s3_request_new AWS_S3_AUTO_RANGED_PUT_REQUEST_TAG_COMPLETE_MULTIPART_UPLOAD 0
                {AWS_S3_REQUEST_FLAG_RECORD_RESPONSE_HEADERS}))
         else if \<not> complete_multipart_upload_completed arp then has_work_remaining arp None
         else no_work_remaining arp)
      else
        (if \<not> create_multipart_upload_sent arp then no_work_remaining arp
         else if \<not> create_multipart_upload_completed arp then has_work_remaining arp None
         else if num_parts_completed arp < num_parts_sent arp then has_work_remaining arp None
         else if complete_multipart_upload_sent arp \<and> \<not> complete_multipart_upload_completed arp then
           has_work_remaining arp None
         else if finish_result_error_code (base arp) = AWS_ERROR_S3_PAUSED
                 \<or> finish_result_error_code (base arp) = AWS_ERROR_S3_RESUME_FAILED then
           no_work_remaining arp
         else if complete_multipart_upload_completed arp
                 \<and> complete_multipart_upload_error_code arp = AWS_ERROR_SUCCESS then
           no_work_remaining arp
         else if \<not> abort_multipart_upload_sent arp then
           (if upload_id arp = None then no_work_remaining arp
            else
              has_work_remaining (arp\<lparr>abort_multipart_upload_sent := True\<rparr>)
                (Some (aws_s3_request_new AWS_S3_AUTO_RANGED_PUT_REQUEST_TAG_ABORT_MULTIPART_UPLOAD 0
                   {AWS_S3_REQUEST_FLAG_RECORD_RESPONSE_HEADERS, AWS_S3_REQUEST_FLAG_ALWAYS_SEND})))
         else if \<not> abort_multipart_upload_completed arp then has_work_remaining arp None
         else no_work_remaining arp))"

subsection \<open>Responses\<close>

text \<open>
  One part of a \<^verbatim>\<open>ListParts\<close> page, as \<^verbatim>\<open>struct aws_s3_part_info\<close> has it
  (\<open>info_part_number\<close> is its \<^verbatim>\<open>part_number\<close>).
\<close>

record aws_s3_part_info =
  info_part_number :: "32 word"
  e_tag :: string
  checksumCRC32 :: bytes
  checksumCRC32C :: bytes
  checksumSHA1 :: bytes
  checksumSHA256 :: bytes

text \<open>
  The parsers of the response body (\<^verbatim>\<open>aws_s3_paginated_operation_on_response\<close>,
  \<^verbatim>\<open>get_top_level_xml_tag_value\<close>) are not among the sources, so a finished request comes
  with what they report of it. \<open>page_parts\<close> are the parts the paginator hands to
  \<^verbatim>\<open>s_process_part_info\<close>, in order; \<open>page_parsed\<close> says that it returned
  \<^verbatim>\<open>AWS_OP_SUCCESS\<close>; \<open>page_continuation_token\<close> and \<open>page_has_more_results\<close> are what it
  writes to its two out parameters. \<open>upload_id_tag\<close> is the top-level \<^verbatim>\<open>UploadId\<close> of the
  body, if there is one.
\<close>

record aws_s3_response =
  response_headers :: "(string \<times> string) list"
  page_parts :: "aws_s3_part_info list"
  page_parsed :: bool
  page_continuation_token :: "string option"
  page_has_more_results :: bool
  upload_id_tag :: "string option"

text \<open>
  \<^verbatim>\<open>aws_http_headers_get\<close> on a header list: the first header of that name, or a failure.
\<close>

definition aws_http_headers_get :: "(string \<times> string) list \<Rightarrow> string \<Rightarrow> string option" where
  "aws_http_headers_get headers name = map_of headers name"

definition g_etag_header_name :: string where
  "g_etag_header_name = ''ETag''"

definition s_create_multipart_upload_copy_headers :: "string list" where
  "s_create_multipart_upload_copy_headers =
     [''x-amz-server-side-encryption-customer-algorithm'',
      ''x-amz-server-side-encryption-customer-key-MD5'',
      ''x-amz-server-side-encryption-context'']"

text \<open>
  Modelled from the spec: \<^verbatim>\<open>aws_strip_quotes\<close> of \<^verbatim>\<open>s3_util.c\<close>, which is not among the
  sources. The spec: "ETag header values arrive quoted; the core strips surrounding double
  quotes before storing."
\<close>

definition aws_strip_quotes :: "string \<Rightarrow> string" where
  "aws_strip_quotes s =
     (if 2 \<le> length s \<and> hd s = CHR 0x22 \<and> last s = CHR 0x22 then butlast (tl s) else s)"

text \<open>
  The loops that copy the three customer-SSE headers which are present, in
  \<^verbatim>\<open>s_load_persistable_state\<close> and in the create-multipart-upload case.
\<close>

definition copy_needed_headers :: "(string \<times> string) list \<Rightarrow> (string \<times> string) list" where
  "copy_needed_headers headers =
     List.map_filter
       (\<lambda>header_name. map_option (Pair header_name) (aws_http_headers_get headers header_name))
       s_create_multipart_upload_copy_headers"

subsection \<open>ListParts: one part\<close>

text \<open>
  \<^verbatim>\<open>aws_array_list_set_at\<close> on the static ETag list: it fails, and changes nothing, for an
  index outside the list's capacity; the file ignores its result.
\<close>

definition aws_array_list_set_at :: "'a list \<Rightarrow> 'a \<Rightarrow> nat \<Rightarrow> 'a list" where
  "aws_array_list_set_at xs v index = (if index < length xs then xs[index := v] else xs)"

text \<open>
  \<^verbatim>\<open>s_process_part_info\<close>. With a checksum algorithm, the checksum is written to
  \<^verbatim>\<open>checksums_list[part_number - 1]\<close>, a raw array of \<open>total_num_parts\<close> buffers: an index
  outside it is a fault.
\<close>

definition s_process_part_info ::
  "aws_s3_auto_ranged_put \<Rightarrow> aws_s3_part_info \<Rightarrow> aws_s3_auto_ranged_put outcome" where
  "s_process_part_info arp info =
     (let etag = aws_strip_quotes (e_tag info);
          checksum_cur =
            (case checksum_algorithm (base arp) of
               AWS_SCA_CRC32 \<Rightarrow> Some (checksumCRC32 info)
             | AWS_SCA_CRC32C \<Rightarrow> Some (checksumCRC32C info)
             | AWS_SCA_SHA1 \<Rightarrow> Some (checksumSHA1 info)
             | AWS_SCA_SHA256 \<Rightarrow> Some (checksumSHA256 info)
             | AWS_SCA_NONE \<Rightarrow> None);
          index = unat (info_part_number info - 1)
      in
      case checksum_cur of
        Some checksum \<Rightarrow>
          if index < length (checksums_list arp) then
            Ok (arp\<lparr>checksums_list := (checksums_list arp)[index := checksum],
                     etag_list := aws_array_list_set_at (etag_list arp) (Some etag) index\<rparr>)
          else Crash Out_of_bounds
      | None \<Rightarrow>
          Ok (arp\<lparr>etag_list := aws_array_list_set_at (etag_list arp) (Some etag) index\<rparr>))"

text \<open>The paginator's calls of the part callback, one per part of the page.\<close>

fun process_parts ::
  "aws_s3_auto_ranged_put \<Rightarrow> aws_s3_part_info list \<Rightarrow> aws_s3_auto_ranged_put outcome" where
  "process_parts arp [] = Ok arp"
| "process_parts arp (info # infos) =
     (case s_process_part_info arp info of
        Ok arp' \<Rightarrow> process_parts arp' infos
      | Err e \<Rightarrow> Err e
      | Crash f \<Rightarrow> Crash f)"

text \<open>
  The sweep over the ETag list when the last page has come: every filled slot counts as a
  part sent and completed.
\<close>

fun count_uploaded_parts :: "string option list \<Rightarrow> 32 word \<times> 32 word \<Rightarrow> 32 word \<times> 32 word" where
  "count_uploaded_parts [] (sent, completed) = (sent, completed)"
| "count_uploaded_parts (etag # etags) (sent, completed) =
     (if etag \<noteq> None then count_uploaded_parts etags (sent + 1, completed + 1)
      else count_uploaded_parts etags (sent, completed))"

subsection \<open>finished_request\<close>

text \<open>
  The user's callbacks the function calls, in order. \<open>Progress_callback\<close> carries the two
  fields of \<^verbatim>\<open>struct aws_s3_meta_request_progress\<close>: \<^verbatim>\<open>bytes_transferred\<close> and
  \<^verbatim>\<open>content_length\<close>.
\<close>

datatype callback_call = Progress_callback "64 word" "64 word" | Headers_callback

type_synonym finished = "(aws_s3_auto_ranged_put \<times> callback_call list) outcome"

text \<open>
  The end of the list-parts case: \<open>list_parts_completed\<close>, the error code (kept in the
  create-multipart-upload field, as the source has it) and the failure of the meta request.
\<close>

definition list_parts_finish :: "aws_s3_auto_ranged_put \<Rightarrow> bool \<Rightarrow> aws_error \<Rightarrow> finished" where
  "list_parts_finish arp has_more_results error_code =
     (let arp' = arp\<lparr>list_parts_completed := \<not> has_more_results,
                       create_multipart_upload_error_code := error_code\<rparr>
      in Ok (if error_code \<noteq> AWS_ERROR_SUCCESS then set_fail_synced arp' error_code else arp', []))"

definition request_finished_list_parts ::
  "aws_s3_auto_ranged_put \<Rightarrow> aws_s3_response \<Rightarrow> aws_error \<Rightarrow> finished" where
  "request_finished_list_parts arp response error_code =
     (if error_code = AWS_ERROR_SUCCESS then
        (case process_parts arp (page_parts response) of
           Crash f \<Rightarrow> Crash f
         | Err e \<Rightarrow> Err e
         | Ok arp1 \<Rightarrow>
             let arp2 = arp1\<lparr>list_parts_continuation_token := page_continuation_token response\<rparr>;
                 has_more_results = page_has_more_results response
             in
             if \<not> page_parsed response then
               list_parts_finish arp2 has_more_results AWS_ERROR_S3_LIST_PARTS_PARSE_FAILED
             else if \<not> has_more_results then
               (let (sent, completed) =
                      count_uploaded_parts (etag_list arp2)
                        (num_parts_sent arp2, num_parts_completed arp2)
                in list_parts_finish
                     (arp2\<lparr>num_parts_sent := sent, num_parts_completed := completed\<rparr>)
                     has_more_results error_code)
             else list_parts_finish arp2 has_more_results error_code)
      else list_parts_finish arp False error_code)"

definition request_finished_create_multipart_upload ::
  "aws_s3_auto_ranged_put \<Rightarrow> aws_s3_response \<Rightarrow> aws_error \<Rightarrow> finished" where
  "request_finished_create_multipart_upload arp response error_code =
     (let needed =
            (if error_code = AWS_ERROR_SUCCESS
             then Some (copy_needed_headers (response_headers response)) else None);
          (arp1, error_code1) =
            (if error_code = AWS_ERROR_SUCCESS then
               (case upload_id_tag response of
                  None \<Rightarrow> (arp, AWS_ERROR_S3_MISSING_UPLOAD_ID)
                | Some uid \<Rightarrow> (arp\<lparr>upload_id := Some uid\<rparr>, error_code))
             else (arp, error_code));
          arp2 = arp1\<lparr>needed_response_headers := needed,
                       create_multipart_upload_completed := True,
                       list_parts_error_code := error_code1\<rparr>
      in Ok (if error_code1 \<noteq> AWS_ERROR_SUCCESS then set_fail_synced arp2 error_code1 else arp2, []))"

definition request_finished_part ::
  "aws_s3_auto_ranged_put \<Rightarrow> aws_s3_request \<Rightarrow> aws_s3_response \<Rightarrow> aws_error \<Rightarrow> finished" where
  "request_finished_part arp request response error_code =
     (if \<not> part_number request > 0 then Crash Fatal_assert
      else
        let part_index = unat (part_number request) - 1;
            (etag, error_code1) =
              (if error_code = AWS_ERROR_SUCCESS then
                 (case aws_http_headers_get (response_headers response) g_etag_header_name of
                    None \<Rightarrow> (None, AWS_ERROR_S3_MISSING_UPLOAD_ID)
                  | Some etag_within_quotes \<Rightarrow> (Some (aws_strip_quotes etag_within_quotes), error_code))
               else (None, error_code));
            calls =
              (if error_code1 = AWS_ERROR_SUCCESS \<and> progress_callback (base arp)
               then [Progress_callback (part_size (base arp)) (content_length arp)] else []);
            arp1 = arp\<lparr>num_parts_completed := num_parts_completed arp + 1\<rparr>
        in
        if error_code1 = AWS_ERROR_SUCCESS then
          Ok (arp1\<lparr>num_parts_successful := num_parts_successful arp1 + 1,
                   etag_list := aws_array_list_set_at (etag_list arp1) etag part_index\<rparr>, calls)
        else
          Ok (set_fail_synced (arp1\<lparr>num_parts_failed := num_parts_failed arp1 + 1\<rparr>) error_code1,
              calls))"

text \<open>
  \<^verbatim>\<open>aws_last_error_or_unknown\<close>: the error the failing callback left, never the success code.
\<close>

definition aws_last_error_or_unknown :: "aws_error \<Rightarrow> aws_error" where
  "aws_last_error_or_unknown last_error =
     (if last_error = AWS_ERROR_SUCCESS then AWS_ERROR_UNKNOWN else last_error)"

text \<open>
  The complete-multipart-upload case. \<open>user_result\<close> is the answer of the user's headers
  callback, should it be called: \<open>None\<close> for success, \<open>Some e\<close> for a failure with \<open>e\<close> as
  the last error raised. The headers handed to the callback are not modelled.
\<close>

definition request_finished_complete_multipart_upload ::
  "aws_s3_auto_ranged_put \<Rightarrow> aws_error \<Rightarrow> aws_error option \<Rightarrow> finished" where
  "request_finished_complete_multipart_upload arp error_code user_result =
     (let called = (error_code = AWS_ERROR_SUCCESS \<and> headers_callback (base arp));
          error_code1 =
            (if called then
               (case user_result of
                  Some last_error \<Rightarrow> aws_last_error_or_unknown last_error
                | None \<Rightarrow> error_code)
             else error_code);
          arp1 = (if called then arp\<lparr>base := (base arp)\<lparr>headers_callback := False\<rparr>\<rparr> else arp);
          arp2 = arp1\<lparr>complete_multipart_upload_completed := True,
                       complete_multipart_upload_error_code := error_code1\<rparr>
      in Ok (if error_code1 \<noteq> AWS_ERROR_SUCCESS then set_fail_synced arp2 error_code1 else arp2,
             if called then [Headers_callback] else []))"

definition request_finished_abort_multipart_upload ::
  "aws_s3_auto_ranged_put \<Rightarrow> aws_error \<Rightarrow> finished" where
  "request_finished_abort_multipart_upload arp error_code =
     Ok (arp\<lparr>abort_multipart_upload_error_code := error_code,
              abort_multipart_upload_completed := True\<rparr>, [])"

text \<open>
  \<^verbatim>\<open>s_s3_auto_ranged_put_request_finished\<close>: the switch on the request's tag. \<open>response\<close>
  is the request's \<^verbatim>\<open>send_data\<close>.
\<close>

definition s_s3_auto_ranged_put_request_finished ::
  "aws_s3_auto_ranged_put \<Rightarrow> aws_s3_request \<Rightarrow> aws_s3_response \<Rightarrow> aws_error \<Rightarrow>
   aws_error option \<Rightarrow> finished" where
  "s_s3_auto_ranged_put_request_finished arp request response error_code user_result =
     (case request_tag request of
        AWS_S3_AUTO_RANGED_PUT_REQUEST_TAG_LIST_PARTS \<Rightarrow>
          request_finished_list_parts arp response error_code
      | AWS_S3_AUTO_RANGED_PUT_REQUEST_TAG_CREATE_MULTIPART_UPLOAD \<Rightarrow>
          request_finished_create_multipart_upload arp response error_code
      | AWS_S3_AUTO_RANGED_PUT_REQUEST_TAG_PART \<Rightarrow>
          request_finished_part arp request response error_code
      | AWS_S3_AUTO_RANGED_PUT_REQUEST_TAG_COMPLETE_MULTIPART_UPLOAD \<Rightarrow>
          request_finished_complete_multipart_upload arp error_code user_result
      | AWS_S3_AUTO_RANGED_PUT_REQUEST_TAG_ABORT_MULTIPART_UPLOAD \<Rightarrow>
          request_finished_abort_multipart_upload arp error_code)"

subsection \<open>The resume token\<close>

text \<open>
  A JSON value as \<^verbatim>\<open>aws_json_value\<close> holds it. A number is a \<^verbatim>\<open>double\<close>; every finite
  double is a rational.
\<close>

datatype aws_json_value =
    JSON_Null
  | JSON_Bool bool
  | JSON_Number rat
  | JSON_String string
  | JSON_Array "aws_json_value list"
  | JSON_Object "(string \<times> aws_json_value) list"

text \<open>
  The accessors of \<^verbatim>\<open>aws/common/json.h\<close>: a NULL node for a root that is NULL or no object
  and for a missing key; \<open>None\<close> from the two getters is their \<^verbatim>\<open>AWS_OP_ERR\<close>.
\<close>

definition aws_json_value_get_from_object :: "aws_json_value option \<Rightarrow> string \<Rightarrow> aws_json_value option" where
  "aws_json_value_get_from_object json_root key =
     (case json_root of Some (JSON_Object members) \<Rightarrow> map_of members key | _ \<Rightarrow> None)"

definition aws_json_value_get_number :: "aws_json_value \<Rightarrow> rat option" where
  "aws_json_value_get_number node = (case node of JSON_Number d \<Rightarrow> Some d | _ \<Rightarrow> None)"

definition aws_json_value_get_string :: "aws_json_value \<Rightarrow> string option" where
  "aws_json_value_get_string node = (case node of JSON_String str \<Rightarrow> Some str | _ \<Rightarrow> None)"

text \<open>
  The casts \<^verbatim>\<open>(size_t)d\<close> and \<^verbatim>\<open>(uint32_t)d\<close> of a \<^verbatim>\<open>double\<close>: the value truncated
  towards zero, undefined (\<open>None\<close>) when the target type cannot hold it.
\<close>

definition double_to_size_t :: "rat \<Rightarrow> 64 word option" where
  "double_to_size_t d =
     (if d \<le> - 1 \<or> 2 ^ 64 \<le> d then None
      else Some (word_of_int (if d < 0 then 0 else \<lfloor>d\<rfloor>)))"

definition double_to_uint32_t :: "rat \<Rightarrow> 32 word option" where
  "double_to_uint32_t d =
     (if d \<le> - 1 \<or> 2 ^ 32 \<le> d then None
      else Some (word_of_int (if d < 0 then 0 else \<lfloor>d\<rfloor>)))"

text \<open>
  \<^verbatim>\<open>s_parse_resume_info_from_token\<close>. \<open>resume_token\<close> is \<open>None\<close> for a NULL token and
  otherwise the root \<^verbatim>\<open>aws_json_value_new_from_string\<close> makes of it (\<open>None\<close> for bytes that
  are no JSON text). The three out parameters come in with the caller's values and are
  written on success only. \<open>min_upload_part_size\<close> and \<open>max_num_upload_parts\<close> are
  \<^verbatim>\<open>g_s3_min_upload_part_size\<close> and \<^verbatim>\<open>g_s3_max_num_upload_parts\<close>, which \<^verbatim>\<open>s3_util.c\<close>
  defines.
\<close>

definition s_parse_resume_info_from_token ::
  "64 word \<Rightarrow> 32 word \<Rightarrow> aws_json_value option option \<Rightarrow> string option \<times> 64 word \<times> 32 word \<Rightarrow>
   (string option \<times> 64 word \<times> 32 word) outcome" where
  "s_parse_resume_info_from_token min_upload_part_size max_num_upload_parts resume_token outs =
     (case resume_token of
        None \<Rightarrow> Ok outs
      | Some json_root \<Rightarrow>
          (case (aws_json_value_get_from_object json_root ''multipart_upload_id'',
                 aws_json_value_get_from_object json_root ''partition_size'',
                 aws_json_value_get_from_object json_root ''total_num_parts'',
                 aws_json_value_get_from_object json_root ''type'') of
             (Some multipart_upload_id_node, Some partition_size_node,
              Some total_num_parts_node, Some type_node) \<Rightarrow>
               (case (aws_json_value_get_number partition_size_node,
                      aws_json_value_get_number total_num_parts_node,
                      aws_json_value_get_string multipart_upload_id_node,
                      aws_json_value_get_string type_node) of
                  (Some partition_size_value, Some total_num_parts_value,
                   Some multipart_upload_id_value, Some type_value) \<Rightarrow>
                    if type_value \<noteq> ''AWS_S3_META_REQUEST_TYPE_PUT_OBJECT'' then
                      Err AWS_ERROR_INVALID_ARGUMENT
                    else
                      (case double_to_size_t partition_size_value of
                         None \<Rightarrow> Crash Undefined_conversion
                       | Some partition_size \<Rightarrow>
                           if partition_size < min_upload_part_size then
                             Err AWS_ERROR_INVALID_ARGUMENT
                           else
                             (case double_to_uint32_t total_num_parts_value of
                                None \<Rightarrow> Crash Undefined_conversion
                              | Some total_parts \<Rightarrow>
                                  if total_parts > max_num_upload_parts then
                                    Err AWS_ERROR_INVALID_ARGUMENT
                                  else
                                    Ok (Some multipart_upload_id_value, partition_size,
                                        total_parts)))
                | _ \<Rightarrow> Err AWS_ERROR_INVALID_ARGUMENT)
           | _ \<Rightarrow> Err AWS_ERROR_INVALID_ARGUMENT))"

subsection \<open>Construction\<close>

text \<open>
  \<^verbatim>\<open>s_load_persistable_state\<close>. The number of parts is computed in \<^verbatim>\<open>uint32_t\<close>: the
  64-bit quotient is cut to its low 32 bits (\<open>ucast\<close>) and the increment wraps. The
  paginated list-parts operation it creates is not modelled.
\<close>

definition s_load_persistable_state ::
  "aws_s3_auto_ranged_put \<Rightarrow> 64 word \<Rightarrow> string option \<Rightarrow> 64 word \<Rightarrow> 32 word \<Rightarrow>
   aws_s3_auto_ranged_put outcome" where
  "s_load_persistable_state arp content_len upload part_sz total_parts =
     (if part_sz = 0 then Crash Division_by_zero
      else
        let num_parts = (ucast (content_len div part_sz) :: 32 word);
            num_parts = (if content_len mod part_sz > 0 then num_parts + 1 else num_parts)
        in
        if total_parts \<noteq> num_parts then Err AWS_ERROR_INVALID_ARGUMENT
        else
          (case request_path (initial_request_message (base arp)) of
             None \<Rightarrow> Err AWS_ERROR_INVALID_ARGUMENT
           | Some path \<Rightarrow>
               Ok (arp\<lparr>num_parts_sent := 0,
                        num_parts_completed := 0,
                        create_multipart_upload_sent := True,
                        create_multipart_upload_completed := True,
                        upload_id := upload,
                        needed_response_headers :=
                          Some (copy_needed_headers (message_headers (initial_request_message (base arp))))\<rparr>)))"

text \<open>The fields of \<^verbatim>\<open>struct aws_s3_meta_request_options\<close> the constructor uses.\<close>

record aws_s3_meta_request_options =
  message :: aws_http_message
  resume_token :: "aws_json_value option option"
  options_checksum_algorithm :: aws_s3_checksum_algorithm
  options_progress_callback :: bool
  options_headers_callback :: bool

text \<open>
  Modelled from the spec: \<^verbatim>\<open>aws_s3_meta_request_init_base\<close> of \<^verbatim>\<open>s3_meta_request.c\<close>,
  which is not among the sources. The spec: a meta request holds the "finish-result (error
  code + failed request + response-status)", the "headers/body/progress/finish user callbacks"
  and the "checksum configuration". The base it leaves holds the initial message, the part
  size handed in, the options' checksum algorithm and callbacks, and no finish result; its own
  failures are left out.
\<close>

definition aws_s3_meta_request_init_base ::
  "64 word \<Rightarrow> aws_s3_meta_request_options \<Rightarrow> aws_s3_meta_request" where
  "aws_s3_meta_request_init_base part_sz options =
     \<lparr>initial_request_message = message options,
      part_size = part_sz,
      checksum_algorithm = options_checksum_algorithm options,
      progress_callback = options_progress_callback options,
      headers_callback = options_headers_callback options,
      finish_result_set = False,
      finish_result_error_code = AWS_ERROR_SUCCESS\<rparr>"

text \<open>The zeroed allocation of \<^verbatim>\<open>aws_mem_calloc\<close> around a base.\<close>

definition aws_mem_calloc :: "aws_s3_meta_request \<Rightarrow> aws_s3_auto_ranged_put" where
  "aws_mem_calloc b =
     \<lparr>base = b, upload_id = None, content_length = 0, next_part_number = 0,
      num_parts_read_from_stream = 0, checksums_list = [], etag_list = [],
      list_parts_continuation_token = None, total_num_parts = 0, num_parts_sent = 0,
      num_parts_completed = 0, num_parts_successful = 0, num_parts_failed = 0,
      needed_response_headers = None,
      list_parts_error_code = AWS_ERROR_SUCCESS,
      create_multipart_upload_error_code = AWS_ERROR_SUCCESS,
      complete_multipart_upload_error_code = AWS_ERROR_SUCCESS,
      abort_multipart_upload_error_code = AWS_ERROR_SUCCESS,
      list_parts_sent = False, list_parts_completed = False,
      create_multipart_upload_sent = False, create_multipart_upload_completed = False,
      complete_multipart_upload_sent = False, complete_multipart_upload_completed = False,
      abort_multipart_upload_sent = False, abort_multipart_upload_completed = False\<rparr>"

text \<open>
  \<^verbatim>\<open>aws_s3_meta_request_auto_ranged_put_new\<close>: \<open>Err\<close> is the NULL result with the error
  raised. The token, when there is one, replaces the caller's part size and number of parts.
\<close>

definition aws_s3_meta_request_auto_ranged_put_new ::
  "64 word \<Rightarrow> 32 word \<Rightarrow> 64 word \<Rightarrow> 64 word \<Rightarrow> 32 word \<Rightarrow> aws_s3_meta_request_options \<Rightarrow>
   aws_s3_auto_ranged_put outcome" where
  "aws_s3_meta_request_auto_ranged_put_new min_upload_part_size max_num_upload_parts
       part_sz content_len num_parts options =
     (case s_parse_resume_info_from_token min_upload_part_size max_num_upload_parts
             (resume_token options) (None, part_sz, num_parts) of
        Err e \<Rightarrow> Err e
      | Crash f \<Rightarrow> Crash f
      | Ok (multipart_upload_id, part_sz1, num_parts1) \<Rightarrow>
          let arp = (aws_mem_calloc (aws_s3_meta_request_init_base part_sz1 options))
                      \<lparr>content_length := content_len,
                       total_num_parts := num_parts1,
                       upload_id := None,
                       next_part_number := 1,
                       num_parts_read_from_stream := 0\<rparr>
          in
          (case (if resume_token options \<noteq> None then
                   s_load_persistable_state arp content_len multipart_upload_id part_sz1 num_parts1
                 else Ok (arp\<lparr>list_parts_sent := True, list_parts_completed := True\<rparr>)) of
             Err e \<Rightarrow> Err e
           | Crash f \<Rightarrow> Crash f
           | Ok arp1 \<Rightarrow>
               Ok (arp1\<lparr>etag_list := replicate (unat num_parts1) None,
                         checksums_list := replicate (unat num_parts1) []\<rparr>)))"

subsection \<open>pause\<close>

text \<open>
  The cast \<^verbatim>\<open>(double)n\<close> of an unsigned integer: exact below \<open>2 ^ 53\<close>, and above it the
  nearest multiple of the power of two that leaves 53 bits, ties to the even one.
\<close>

function double_exponent :: "nat \<Rightarrow> nat" where
  "double_exponent n = (if n < 2 ^ 53 then 0 else Suc (double_exponent (n div 2)))"
  by pat_completeness auto
termination
  by (relation "measure (\<lambda>n. n)") auto

declare double_exponent.simps [simp del]

definition double_of_nat :: "nat \<Rightarrow> rat" where
  "double_of_nat n =
     (let e = double_exponent n; q = n div 2 ^ e; r = n mod 2 ^ e in
      if e = 0 then of_nat n
      else of_nat ((if 2 ^ (e - 1) < r \<or> (r = 2 ^ (e - 1) \<and> odd q) then q + 1 else q) * 2 ^ e))"

definition AWS_OP_SUCCESS :: int where "AWS_OP_SUCCESS = 0"
definition AWS_OP_ERR :: int where "AWS_OP_ERR = - 1"

text \<open>
  \<^verbatim>\<open>s_s3_auto_ranged_put_pause\<close>: the result is the meta request, \<^verbatim>\<open>*out_resume_token\<close>
  and the returned code. \<open>json_string\<close> is \<^verbatim>\<open>aws_byte_buf_append_json_string\<close>, the
  serialiser of aws-c-common (\<open>None\<close> when it fails).
  \<^verbatim>\<open>aws_byte_cursor_from_string\<close> reads the length through its argument, a fault for the
  NULL upload id that a failed create-multipart-upload leaves.
\<close>

definition s_s3_auto_ranged_put_pause ::
  "(aws_json_value \<Rightarrow> string option) \<Rightarrow> aws_s3_auto_ranged_put \<Rightarrow>
   (aws_s3_auto_ranged_put \<times> string option \<times> int) outcome" where
  "s_s3_auto_ranged_put_pause json_string arp =
     (if create_multipart_upload_completed arp then
        (case upload_id arp of
           None \<Rightarrow> Crash Null_dereference
         | Some uid \<Rightarrow>
             let json_root =
                   JSON_Object
                     [(''type'', JSON_String ''AWS_S3_META_REQUEST_TYPE_PUT_OBJECT''),
                      (''multipart_upload_id'', JSON_String uid),
                      (''partition_size'',
                         JSON_Number (double_of_nat (unat (part_size (base arp))))),
                      (''total_num_parts'',
                         JSON_Number (double_of_nat (unat (total_num_parts arp))))]
             in
             (case json_string json_root of
                Some result_string \<Rightarrow>
                  Ok (set_fail_synced arp AWS_ERROR_S3_PAUSED, Some result_string, AWS_OP_SUCCESS)
              | None \<Rightarrow> Ok (set_fail_synced arp AWS_ERROR_S3_PAUSED, None, AWS_OP_ERR)))
      else Ok (set_fail_synced arp AWS_ERROR_S3_PAUSED, None, AWS_OP_SUCCESS))"

subsection \<open>Skipping the parts uploaded before\<close>

text \<open>
  The body of the loop of \<^verbatim>\<open>s_skip_parts_from_stream\<close> for the part of index
  \<open>part_index\<close>. \<open>read_body\<close> is \<^verbatim>\<open>aws_s3_meta_request_read_body\<close> on a buffer of the given
  capacity: the bytes read and the stream after them, or the error the stream raised.
  \<open>checksum_compute\<close> is \<^verbatim>\<open>aws_checksum_compute\<close> (\<open>None\<close> when it fails).
  \<^verbatim>\<open>checksums_list[part_index]\<close> is a raw array access.
\<close>

definition skip_part ::
  "('s \<Rightarrow> 64 word \<Rightarrow> (bytes \<times> 's) outcome) \<Rightarrow> (aws_s3_checksum_algorithm \<Rightarrow> bytes \<Rightarrow> bytes option) \<Rightarrow>
   aws_s3_auto_ranged_put \<Rightarrow> 's \<Rightarrow> 32 word \<Rightarrow> 's outcome" where
  "skip_part read_body checksum_compute arp stream part_index =
     (case s_compute_request_body_size arp (part_index + 1) of
        Crash f \<Rightarrow> Crash f
      | Err e \<Rightarrow> Err e
      | Ok request_body_size \<Rightarrow>
          (case read_body stream request_body_size of
             Crash f \<Rightarrow> Crash f
           | Err e \<Rightarrow> Err e
           | Ok (temp_body_buf, stream') \<Rightarrow>
               if checksum_algorithm (base arp) \<noteq> AWS_SCA_NONE then
                 (if \<not> unat part_index < length (checksums_list arp) then Crash Out_of_bounds
                  else if length (checksums_list arp ! unat part_index) > 0 then
                    (case checksum_compute (checksum_algorithm (base arp)) temp_body_buf of
                       None \<Rightarrow> Err AWS_ERROR_S3_RESUME_FAILED
                     | Some checksum \<Rightarrow>
                         if checksum \<noteq> checksums_list arp ! unat part_index then
                           Err AWS_ERROR_S3_RESUMED_PART_CHECKSUM_MISMATCH
                         else Ok stream')
                  else Ok stream')
               else Ok stream'))"

function skip_parts_loop ::
  "('s \<Rightarrow> 64 word \<Rightarrow> (bytes \<times> 's) outcome) \<Rightarrow> (aws_s3_checksum_algorithm \<Rightarrow> bytes \<Rightarrow> bytes option) \<Rightarrow>
   aws_s3_auto_ranged_put \<Rightarrow> 's \<Rightarrow> 32 word \<Rightarrow> 32 word \<Rightarrow> 's outcome" where
  "skip_parts_loop read_body checksum_compute arp stream part_index skip_until_part_number =
     (if part_index < skip_until_part_number then
        (case skip_part read_body checksum_compute arp stream part_index of
           Ok stream' \<Rightarrow>
             skip_parts_loop read_body checksum_compute arp stream' (part_index + 1)
               skip_until_part_number
         | Err e \<Rightarrow> Err e
         | Crash f \<Rightarrow> Crash f)
      else Ok stream)"
  by pat_completeness auto
termination
proof (relation "measure (\<lambda>(rb, cc, arp, stream, part_index, until). unat until - unat part_index)")
  show "wf (measure (\<lambda>(rb, cc, arp, stream, part_index, until). unat until - unat part_index))"
    by simp
next
  fix read_body :: "'s \<Rightarrow> 64 word \<Rightarrow> (bytes \<times> 's) outcome"
    and checksum_compute :: "aws_s3_checksum_algorithm \<Rightarrow> bytes \<Rightarrow> bytes option"
    and arp :: aws_s3_auto_ranged_put and stream x2 :: 's
    and part_index skip_until_part_number :: "32 word"
  assume less: "part_index < skip_until_part_number"
  have "unat part_index < unat skip_until_part_number"
    using less by (simp add: word_less_nat_alt)
  moreover have "unat skip_until_part_number < 2 ^ 32"
    using unsigned_less [of skip_until_part_number, where ?'a = nat] by simp
  ultimately have "unat (part_index + 1) = Suc (unat part_index)"
    by (simp add: unat_word_ariths)
  then show "((read_body, checksum_compute, arp, x2, part_index + 1, skip_until_part_number),
              (read_body, checksum_compute, arp, stream, part_index, skip_until_part_number))
             \<in> measure (\<lambda>(rb, cc, arp, stream, part_index, until). unat until - unat part_index)"
    using \<open>unat part_index < unat skip_until_part_number\<close> by simp
qed

declare skip_parts_loop.simps [simp del]

text \<open>\<^verbatim>\<open>s_skip_parts_from_stream\<close>: nothing is read when the stream is already there.\<close>

definition s_skip_parts_from_stream ::
  "('s \<Rightarrow> 64 word \<Rightarrow> (bytes \<times> 's) outcome) \<Rightarrow> (aws_s3_checksum_algorithm \<Rightarrow> bytes \<Rightarrow> bytes option) \<Rightarrow>
   aws_s3_auto_ranged_put \<Rightarrow> 's \<Rightarrow> 32 word \<Rightarrow> 32 word \<Rightarrow> 's outcome" where
  "s_skip_parts_from_stream read_body checksum_compute arp stream num_read skip_until_part_number =
     (if num_read = skip_until_part_number then Ok stream
      else skip_parts_loop read_body checksum_compute arp stream num_read skip_until_part_number)"

subsection \<open>Runs of a meta request\<close>

text \<open>
  The client drives a meta request by calling \<open>update\<close>, by reporting each request that
  \<open>update\<close> handed out as finished, once, and by \<open>pause\<close>. \<open>in_flight\<close> holds the requests
  handed out and not yet finished, \<open>sent_requests\<close> every request handed out so far. A step
  that ends in a fault has no successor.
\<close>

record put_system =
  put :: aws_s3_auto_ranged_put
  in_flight :: "aws_s3_request list"
  sent_requests :: "aws_s3_request list"

datatype event =
    Update "aws_s3_meta_request_update_flag set"
  | Finished aws_s3_request aws_s3_response aws_error "aws_error option"
  | Pause

definition hand_out :: "put_system \<Rightarrow> aws_s3_auto_ranged_put \<Rightarrow> aws_s3_request option \<Rightarrow> put_system" where
  "hand_out sys arp request =
     (case request of
        None \<Rightarrow> sys\<lparr>put := arp\<rparr>
      | Some r \<Rightarrow> sys\<lparr>put := arp, in_flight := in_flight sys @ [r],
                      sent_requests := sent_requests sys @ [r]\<rparr>)"

fun step :: "(aws_json_value \<Rightarrow> string option) \<Rightarrow> put_system \<Rightarrow> event \<Rightarrow> put_system option" where
  "step json_string sys (Update flags) =
     (case s_s3_auto_ranged_put_update (put sys) flags of
        Ok (arp, work_remaining, request) \<Rightarrow> Some (hand_out sys arp request)
      | Err e \<Rightarrow> None
      | Crash f \<Rightarrow> None)"
| "step json_string sys (Finished request response error_code user_result) =
     (if request \<in> set (in_flight sys) then
        (case s_s3_auto_ranged_put_request_finished (put sys) request response error_code
                user_result of
           Ok (arp, calls) \<Rightarrow> Some (sys\<lparr>put := arp, in_flight := remove1 request (in_flight sys)\<rparr>)
         | Err e \<Rightarrow> None
         | Crash f \<Rightarrow> None)
      else None)"
| "step json_string sys Pause =
     (case s_s3_auto_ranged_put_pause json_string (put sys) of
        Ok (arp, token, code) \<Rightarrow> Some (sys\<lparr>put := arp\<rparr>)
      | Err e \<Rightarrow> None
      | Crash f \<Rightarrow> None)"

fun run :: "(aws_json_value \<Rightarrow> string option) \<Rightarrow> put_system \<Rightarrow> event list \<Rightarrow> put_system option" where
  "run json_string sys [] = Some sys"
| "run json_string sys (e # es) =
     (case step json_string sys e of
        None \<Rightarrow> None
      | Some sys' \<Rightarrow> run json_string sys' es)"

definition start :: "aws_s3_auto_ranged_put \<Rightarrow> put_system" where
  "start arp = \<lparr>put = arp, in_flight = [], sent_requests = []\<rparr>"

text \<open>The requests of one tag in a list.\<close>

definition tagged :: "aws_s3_auto_ranged_put_request_tag \<Rightarrow> aws_s3_request list \<Rightarrow> aws_s3_request list" where
  "tagged tag requests = filter (\<lambda>r. request_tag r = tag) requests"

text \<open>A serialiser that answers every JSON value with the same text.\<close>

definition constant_json_string :: "aws_json_value \<Rightarrow> string option" where
  "constant_json_string v = Some ''serialized''"

subsection \<open>Scenarios\<close>

text \<open>
  The inputs the properties below are run on: a fresh put of 25 MiB in parts of 8 MiB (four
  parts, the last of 1 MiB), the same put resumed from a pause token, and the requests and
  responses of its run.
\<close>

definition fresh_options :: aws_s3_meta_request_options where
  "fresh_options =
     \<lparr>message = \<lparr>request_path = Some ''/key'', message_headers = []\<rparr>,
      resume_token = None,
      options_checksum_algorithm = AWS_SCA_NONE,
      options_progress_callback = True,
      options_headers_callback = False\<rparr>"

definition fresh_put :: aws_s3_auto_ranged_put where
  "fresh_put =
     (aws_mem_calloc (aws_s3_meta_request_init_base 8388608 fresh_options))
       \<lparr>content_length := 26214400, total_num_parts := 4, next_part_number := 1,
        list_parts_sent := True, list_parts_completed := True,
        etag_list := [None, None, None, None], checksums_list := [[], [], [], []]\<rparr>"

definition token_abc :: aws_json_value where
  "token_abc =
     JSON_Object
       [(''type'', JSON_String ''AWS_S3_META_REQUEST_TYPE_PUT_OBJECT''),
        (''multipart_upload_id'', JSON_String ''abc''),
        (''partition_size'', JSON_Number 8388608),
        (''total_num_parts'', JSON_Number 4)]"

definition resume_options :: aws_s3_meta_request_options where
  "resume_options =
     fresh_options\<lparr>resume_token := Some (Some token_abc),
                    options_checksum_algorithm := AWS_SCA_CRC32C\<rparr>"

definition resumed_put :: aws_s3_auto_ranged_put where
  "resumed_put =
     (aws_mem_calloc (aws_s3_meta_request_init_base 8388608 resume_options))
       \<lparr>content_length := 26214400, total_num_parts := 4, next_part_number := 1,
        upload_id := Some ''abc'', needed_response_headers := Some [],
        create_multipart_upload_sent := True, create_multipart_upload_completed := True,
        etag_list := [None, None, None, None], checksums_list := [[], [], [], []]\<rparr>"

definition part_request :: "32 word \<Rightarrow> aws_s3_request" where
  "part_request n =
     (aws_s3_request_new AWS_S3_AUTO_RANGED_PUT_REQUEST_TAG_PART 0
        {AWS_S3_REQUEST_FLAG_RECORD_RESPONSE_HEADERS})\<lparr>part_number := n\<rparr>"

definition tag_request :: "aws_s3_auto_ranged_put_request_tag \<Rightarrow> aws_s3_request" where
  "tag_request tag = aws_s3_request_new tag 0 {AWS_S3_REQUEST_FLAG_RECORD_RESPONSE_HEADERS}"

definition bare_response :: aws_s3_response where
  "bare_response =
     \<lparr>response_headers = [], page_parts = [], page_parsed = True,
      page_continuation_token = None, page_has_more_results = False, upload_id_tag = None\<rparr>"

definition etag_response :: "string \<Rightarrow> aws_s3_response" where
  "etag_response etag =
     bare_response\<lparr>response_headers := [(''ETag'', CHR 0x22 # etag @ [CHR 0x22])]\<rparr>"

text \<open>The request \<open>update\<close> hands out to abort the multipart upload.\<close>

definition abort_request :: aws_s3_request where
  "abort_request =
     aws_s3_request_new AWS_S3_AUTO_RANGED_PUT_REQUEST_TAG_ABORT_MULTIPART_UPLOAD 0
       {AWS_S3_REQUEST_FLAG_RECORD_RESPONSE_HEADERS, AWS_S3_REQUEST_FLAG_ALWAYS_SEND}"

definition upload_id_response :: "string \<Rightarrow> aws_s3_response" where
  "upload_id_response uid = bare_response\<lparr>upload_id_tag := Some uid\<rparr>"

text \<open>
  A run of the fresh put that fails: the upload is created, part 1 is sent and comes back
  with an error, and \<open>update\<close> is called twice more. \<open>failed_put\<close> is the meta request after
  the failure of part 1.
\<close>

definition failing_run :: "event list" where
  "failing_run =
     [Update {},
      Finished (tag_request AWS_S3_AUTO_RANGED_PUT_REQUEST_TAG_CREATE_MULTIPART_UPLOAD)
        (upload_id_response ''abc'') AWS_ERROR_SUCCESS None,
      Update {},
      Finished (part_request 1) bare_response (AWS_ERROR_OTHER 1) None,
      Update {},
      Update {}]"

definition failed_put :: aws_s3_auto_ranged_put where
  "failed_put =
     fresh_put\<lparr>base := (base fresh_put)\<lparr>finish_result_set := True,
                                         finish_result_error_code := AWS_ERROR_OTHER 1\<rparr>,
               upload_id := Some ''abc'', needed_response_headers := Some [],
               next_part_number := 2, num_parts_sent := 1, num_parts_completed := 1,
               num_parts_failed := 1,
               create_multipart_upload_sent := True,
               create_multipart_upload_completed := True\<rparr>"

text \<open>
  A run of the fresh put whose create-multipart-upload request comes back with an error of
  the HTTP layer, and \<open>create_failed_put\<close>, the meta request after it: the request is marked
  as completed and no upload id is stored.
\<close>

definition create_failed_run :: "event list" where
  "create_failed_run =
     [Update {},
      Finished (tag_request AWS_S3_AUTO_RANGED_PUT_REQUEST_TAG_CREATE_MULTIPART_UPLOAD)
        bare_response (AWS_ERROR_OTHER 1) None]"

definition create_failed_put :: aws_s3_auto_ranged_put where
  "create_failed_put =
     fresh_put\<lparr>base := (base fresh_put)\<lparr>finish_result_set := True,
                                         finish_result_error_code := AWS_ERROR_OTHER 1\<rparr>,
               create_multipart_upload_sent := True,
               create_multipart_upload_completed := True,
               list_parts_error_code := AWS_ERROR_OTHER 1\<rparr>"

text \<open>
  The resumed put after its list-parts request: the server reports parts 1 and 2 with their
  ETags and CRC32C checksums, in one page.
\<close>

definition listed_parts :: "aws_s3_part_info list" where
  "listed_parts =
     [\<lparr>info_part_number = 1, e_tag = CHR 0x22 # ''e1'' @ [CHR 0x22], checksumCRC32 = [],
       checksumCRC32C = [1, 2, 3, 4], checksumSHA1 = [], checksumSHA256 = []\<rparr>,
      \<lparr>info_part_number = 2, e_tag = CHR 0x22 # ''e2'' @ [CHR 0x22], checksumCRC32 = [],
       checksumCRC32C = [5, 6, 7, 8], checksumSHA1 = [], checksumSHA256 = []\<rparr>]"

definition list_parts_page :: aws_s3_response where
  "list_parts_page = bare_response\<lparr>page_parts := listed_parts\<rparr>"

definition resume_run :: "event list" where
  "resume_run =
     [Update {},
      Finished (tag_request AWS_S3_AUTO_RANGED_PUT_REQUEST_TAG_LIST_PARTS) list_parts_page
        AWS_ERROR_SUCCESS None]"

definition listed_put :: aws_s3_auto_ranged_put where
  "listed_put =
     resumed_put\<lparr>list_parts_sent := True, list_parts_completed := True,
                 etag_list := [Some ''e1'', Some ''e2'', None, None],
                 checksums_list := [[1, 2, 3, 4], [5, 6, 7, 8], [], []],
                 num_parts_sent := 2, num_parts_completed := 2\<rparr>"

text \<open>
  A small resumed put for the skipping of parts: three parts of 4, 4 and 2 bytes, the first
  uploaded before with the stored checksum \<open>[10]\<close>; a body stream that is a list of bytes; and
  a checksum that is the sum of the bytes.
\<close>

definition small_put :: aws_s3_auto_ranged_put where
  "small_put =
     listed_put\<lparr>base := (base listed_put)\<lparr>part_size := 4\<rparr>,
                content_length := 10, total_num_parts := 3,
                etag_list := [Some ''e1'', None, None],
                checksums_list := [[10], [], []],
                num_parts_sent := 1, num_parts_completed := 1\<rparr>"

definition list_read_body :: "bytes \<Rightarrow> 64 word \<Rightarrow> (bytes \<times> bytes) outcome" where
  "list_read_body stream capacity =
     (if unat capacity \<le> length stream
      then Ok (take (unat capacity) stream, drop (unat capacity) stream)
      else Err (AWS_ERROR_OTHER 1))"

definition sum_checksum :: "aws_s3_checksum_algorithm \<Rightarrow> bytes \<Rightarrow> bytes option" where
  "sum_checksum algorithm buf = Some [sum_list buf]"

text \<open>The JSON object \<open>pause\<close> builds for an upload id.\<close>

definition pause_token_object :: "aws_s3_auto_ranged_put \<Rightarrow> string \<Rightarrow> aws_json_value" where
  "pause_token_object arp uid =
     JSON_Object
       [(''type'', JSON_String ''AWS_S3_META_REQUEST_TYPE_PUT_OBJECT''),
        (''multipart_upload_id'', JSON_String uid),
        (''partition_size'', JSON_Number (double_of_nat (unat (part_size (base arp))))),
        (''total_num_parts'', JSON_Number (of_nat (unat (total_num_parts arp))))]"

text \<open>
  A resume token of four parts of 5 MiB, for a body of \<open>5242880 * (2 ^ 32 + 4)\<close> bytes.
\<close>

definition truncated_token :: aws_json_value where
  "truncated_token =
     JSON_Object
       [(''type'', JSON_String ''AWS_S3_META_REQUEST_TYPE_PUT_OBJECT''),
        (''multipart_upload_id'', JSON_String ''abc''),
        (''partition_size'', JSON_Number 5242880),
        (''total_num_parts'', JSON_Number 4)]"

definition truncated_options :: aws_s3_meta_request_options where
  "truncated_options = fresh_options\<lparr>resume_token := Some (Some truncated_token)\<rparr>"

subsection \<open>Invariants of a run\<close>

text \<open>The number of filled slots of the ETag list.\<close>

definition populated :: "string option list \<Rightarrow> nat" where
  "populated etags = length (filter (\<lambda>etag. etag \<noteq> None) etags)"

text \<open>
  What every run keeps: the parts sent are the parts completed and the parts in flight; no
  more parts are sent than there are; the ETag list has one slot per part; before list-parts
  has completed no part is counted; and at most one list-parts request is in flight, only
  between its being sent and its completion.
\<close>

definition put_invariant :: "put_system \<Rightarrow> bool" where
  "put_invariant sys \<longleftrightarrow>
     unat (num_parts_sent (put sys))
       = unat (num_parts_completed (put sys))
         + length (tagged AWS_S3_AUTO_RANGED_PUT_REQUEST_TAG_PART (in_flight sys))
     \<and> unat (num_parts_sent (put sys)) \<le> unat (total_num_parts (put sys))
     \<and> unat (num_parts_successful (put sys)) + unat (num_parts_failed (put sys))
         \<le> unat (num_parts_completed (put sys))
     \<and> length (etag_list (put sys)) = unat (total_num_parts (put sys))
     \<and> (list_parts_completed (put sys)
          \<or> num_parts_sent (put sys) = 0 \<and> num_parts_completed (put sys) = 0)
     \<and> length (tagged AWS_S3_AUTO_RANGED_PUT_REQUEST_TAG_LIST_PARTS (in_flight sys)) \<le> 1
     \<and> (tagged AWS_S3_AUTO_RANGED_PUT_REQUEST_TAG_LIST_PARTS (in_flight sys) = []
          \<or> list_parts_sent (put sys) \<and> \<not> list_parts_completed (put sys))
     \<and> (list_parts_sent (put sys) \<or> \<not> list_parts_completed (put sys))"

text \<open>
  What a run without a resume token keeps on top: no list-parts request is ever handed out,
  and every completed part was counted as successful or as failed.
\<close>

definition fresh_invariant :: "put_system \<Rightarrow> bool" where
  "fresh_invariant sys \<longleftrightarrow>
     list_parts_sent (put sys)
     \<and> tagged AWS_S3_AUTO_RANGED_PUT_REQUEST_TAG_LIST_PARTS (in_flight sys) = []
     \<and> unat (num_parts_successful (put sys)) + unat (num_parts_failed (put sys))
         = unat (num_parts_completed (put sys))"

text \<open>What a run with a resume token keeps: the multipart upload counts as created.\<close>

definition created :: "put_system \<Rightarrow> bool" where
  "created sys \<longleftrightarrow>
     create_multipart_upload_sent (put sys) \<and> create_multipart_upload_completed (put sys)"

text \<open>
  The abort request is among the requests handed out at most once, and not at all while
  \<open>abort_multipart_upload_sent\<close> is unset.
\<close>

definition abort_once :: "put_system \<Rightarrow> bool" where
  "abort_once sys \<longleftrightarrow>
     (if abort_multipart_upload_sent (put sys)
      then length (tagged AWS_S3_AUTO_RANGED_PUT_REQUEST_TAG_ABORT_MULTIPART_UPLOAD
                     (sent_requests sys)) \<le> 1
      else tagged AWS_S3_AUTO_RANGED_PUT_REQUEST_TAG_ABORT_MULTIPART_UPLOAD
             (sent_requests sys) = [])"

section \<open>Properties\<close>

subsection \<open>Auxiliary facts\<close>

lemma replicate_4: "replicate 4 x = [x, x, x, x]"
  by (simp add: eval_nat_numeral)

lemma fresh_put_new:
  "aws_s3_meta_request_auto_ranged_put_new 5242880 10000 8388608 26214400 4 fresh_options = Ok fresh_put"
  by (simp add: aws_s3_meta_request_auto_ranged_put_new_def s_parse_resume_info_from_token_def
      fresh_options_def fresh_put_def aws_mem_calloc_def aws_s3_meta_request_init_base_def
      replicate_4)

lemma parse_token_abc:
  "s_parse_resume_info_from_token 5242880 10000 (Some (Some token_abc)) (None, ps, n)
     = Ok (Some ''abc'', 8388608, 4)"
  by (simp add: s_parse_resume_info_from_token_def token_abc_def aws_json_value_get_from_object_def
      aws_json_value_get_number_def aws_json_value_get_string_def double_to_size_t_def
      double_to_uint32_t_def)

lemma resumed_put_new:
  "aws_s3_meta_request_auto_ranged_put_new 5242880 10000 8388608 26214400 4 resume_options = Ok resumed_put"
  by (simp add: aws_s3_meta_request_auto_ranged_put_new_def 
      resume_options_def fresh_options_def parse_token_abc s_load_persistable_state_def
      resumed_put_def aws_mem_calloc_def aws_s3_meta_request_init_base_def
      replicate_4 copy_needed_headers_def s_create_multipart_upload_copy_headers_def
      aws_http_headers_get_def List.map_filter_def)

lemma s_process_part_info_frame:
  assumes "s_process_part_info arp info = Ok arp1"
  shows "arp1 = arp\<lparr>checksums_list := checksums_list arp1, etag_list := etag_list arp1\<rparr>
         \<and> length (etag_list arp1) = length (etag_list arp)
         \<and> length (checksums_list arp1) = length (checksums_list arp)"
  using assms
  by (auto simp: s_process_part_info_def Let_def aws_array_list_set_at_def
      split: option.splits if_splits)

lemma process_parts_frame:
  assumes "process_parts arp infos = Ok arp1"
  shows "arp1 = arp\<lparr>checksums_list := checksums_list arp1, etag_list := etag_list arp1\<rparr>
         \<and> length (etag_list arp1) = length (etag_list arp)
         \<and> length (checksums_list arp1) = length (checksums_list arp)"
  using assms
proof (induction infos arbitrary: arp)
  case Nil
  then show ?case by simp
next
  case (Cons info infos)
  from Cons.prems obtain arp0 where step: "s_process_part_info arp info = Ok arp0"
    and rest: "process_parts arp0 infos = Ok arp1"
    by (auto split: outcome.splits)
  have f0: "arp0 = arp\<lparr>checksums_list := checksums_list arp0, etag_list := etag_list arp0\<rparr>"
    and l0: "length (etag_list arp0) = length (etag_list arp)"
            "length (checksums_list arp0) = length (checksums_list arp)"
    using s_process_part_info_frame [OF step] by simp_all
  have f1: "arp1 = arp0\<lparr>checksums_list := checksums_list arp1, etag_list := etag_list arp1\<rparr>"
    and l1: "length (etag_list arp1) = length (etag_list arp0)"
            "length (checksums_list arp1) = length (checksums_list arp0)"
    using Cons.IH [OF rest] by simp_all
  have "arp1 = arp\<lparr>checksums_list := checksums_list arp1, etag_list := etag_list arp1\<rparr>"
    by (subst f1, subst f0) simp
  with l0 l1 show ?case by simp
qed

lemma count_uploaded_parts_eq:
  "count_uploaded_parts etags (sent, completed) =
     (sent + word_of_nat (length (filter (\<lambda>etag. etag \<noteq> None) etags)),
      completed + word_of_nat (length (filter (\<lambda>etag. etag \<noteq> None) etags)))"
  by (induction etags arbitrary: sent completed) (simp_all add: algebra_simps)

lemma set_fail_synced_fields [simp]:
  "num_parts_sent (set_fail_synced arp e) = num_parts_sent arp"
  "num_parts_completed (set_fail_synced arp e) = num_parts_completed arp"
  "num_parts_successful (set_fail_synced arp e) = num_parts_successful arp"
  "num_parts_failed (set_fail_synced arp e) = num_parts_failed arp"
  "total_num_parts (set_fail_synced arp e) = total_num_parts arp"
  "etag_list (set_fail_synced arp e) = etag_list arp"
  "checksums_list (set_fail_synced arp e) = checksums_list arp"
  "upload_id (set_fail_synced arp e) = upload_id arp"
  "list_parts_sent (set_fail_synced arp e) = list_parts_sent arp"
  "list_parts_completed (set_fail_synced arp e) = list_parts_completed arp"
  "create_multipart_upload_sent (set_fail_synced arp e) = create_multipart_upload_sent arp"
  "create_multipart_upload_completed (set_fail_synced arp e) = create_multipart_upload_completed arp"
  "complete_multipart_upload_sent (set_fail_synced arp e) = complete_multipart_upload_sent arp"
  "complete_multipart_upload_completed (set_fail_synced arp e) = complete_multipart_upload_completed arp"
  "abort_multipart_upload_sent (set_fail_synced arp e) = abort_multipart_upload_sent arp"
  "abort_multipart_upload_completed (set_fail_synced arp e) = abort_multipart_upload_completed arp"
  "list_parts_error_code (set_fail_synced arp e) = list_parts_error_code arp"
  "create_multipart_upload_error_code (set_fail_synced arp e) = create_multipart_upload_error_code arp"
  "complete_multipart_upload_error_code (set_fail_synced arp e) = complete_multipart_upload_error_code arp"
  "content_length (set_fail_synced arp e) = content_length arp"
  by (simp_all add: set_fail_synced_def)

lemma set_fail_synced_base:
  "finish_result_set (base (set_fail_synced arp e))"
  "\<not> finish_result_set (base arp) \<Longrightarrow> finish_result_error_code (base (set_fail_synced arp e)) = e"
  "finish_result_set (base arp) \<Longrightarrow> base (set_fail_synced arp e) = base arp"
  "part_size (base (set_fail_synced arp e)) = part_size (base arp)"
  "progress_callback (base (set_fail_synced arp e)) = progress_callback (base arp)"
  "checksum_algorithm (base (set_fail_synced arp e)) = checksum_algorithm (base arp)"
  by (simp_all add: set_fail_synced_def aws_s3_meta_request_set_fail_synced_def)

subsection \<open>The size of a part\<close>

text \<open>
  Claim C7. For every part number from 1 to \<open>total_num_parts\<close>, the computed request body size
  is \<open>part_size\<close> for every part but the last; for the last part it is
  \<open>content_length mod part_size\<close> when that remainder is not zero, and \<open>part_size\<close> when the
  content length is a multiple of the part size. (The part size is not zero: the remainder by
  zero is undefined.)
\<close>

theorem compute_request_body_size_parts:
  assumes "part_size (base arp) \<noteq> 0" and "1 \<le> pn" and "pn \<le> total_num_parts arp"
  shows "\<exists>request_body_size.
           s_compute_request_body_size arp pn = Ok request_body_size
           \<and> unat request_body_size =
               (if pn = total_num_parts arp
                   \<and> unat (content_length arp) mod unat (part_size (base arp)) \<noteq> 0
                then unat (content_length arp) mod unat (part_size (base arp))
                else unat (part_size (base arp)))"
proof -
  let ?r = "content_length arp mod part_size (base arp)"
  have r: "unat ?r = unat (content_length arp) mod unat (part_size (base arp))"
    by (simp add: unat_mod)
  have "(0 < ?r) = (unat ?r \<noteq> 0)"
    by (simp add: word_greater_zero_iff unat_eq_0)
  then show ?thesis
    using assms(1) r unfolding s_compute_request_body_size_def Let_def by auto
qed

theorem compute_request_body_size_parts_witness:
  "part_size (base fresh_put) \<noteq> 0 \<and> (1 :: 32 word) \<le> 3 \<and> 4 \<le> total_num_parts fresh_put
   \<and> (\<exists>sz. s_compute_request_body_size fresh_put 3 = Ok sz \<and> unat sz = 8388608)
   \<and> (\<exists>sz. s_compute_request_body_size fresh_put 4 = Ok sz \<and> unat sz = 1048576)"
proof -
  have h: "part_size (base fresh_put) = 8388608" "total_num_parts fresh_put = 4"
    "content_length fresh_put = 26214400"
    by (simp_all add: fresh_put_def aws_mem_calloc_def aws_s3_meta_request_init_base_def)
  have "\<exists>sz. s_compute_request_body_size fresh_put 3 = Ok sz \<and> unat sz = 8388608"
    using compute_request_body_size_parts [of fresh_put 3] h by simp
  moreover have "\<exists>sz. s_compute_request_body_size fresh_put 4 = Ok sz \<and> unat sz = 1048576"
    using compute_request_body_size_parts [of fresh_put 4] h by simp
  ultimately show ?thesis using h by simp
qed

subsection \<open>What a finished request records\<close>

text \<open>
  Claim C8. When a LIST_PARTS request finishes, its resulting error code is stored in the field
  \<open>create_multipart_upload_error_code\<close>, and when a CREATE_MULTIPART_UPLOAD request finishes,
  its resulting error code is stored in \<open>list_parts_error_code\<close>: the two fields are
  cross-wired. In both cases a code other than success is also handed to \<open>set_fail_synced\<close>,
  which leaves the meta request with a finish result, that very code when none was set before.
  The resulting code is the code reported, or the parse failure (list parts) and the missing
  upload id (create) that the function finds in a response reported as successful.
\<close>

theorem error_codes_cross_wired:
  "(request_tag request = AWS_S3_AUTO_RANGED_PUT_REQUEST_TAG_LIST_PARTS \<longrightarrow>
      s_s3_auto_ranged_put_request_finished arp request response error_code user_result = Ok (arp', calls) \<longrightarrow>
      (let resulting =
             (if error_code = AWS_ERROR_SUCCESS \<and> \<not> page_parsed response
              then AWS_ERROR_S3_LIST_PARTS_PARSE_FAILED else error_code)
       in create_multipart_upload_error_code arp' = resulting
          \<and> list_parts_error_code arp' = list_parts_error_code arp
          \<and> (resulting \<noteq> AWS_ERROR_SUCCESS \<longrightarrow>
               base arp' = aws_s3_meta_request_set_fail_synced (base arp) resulting
               \<and> finish_result_set (base arp')
               \<and> (\<not> finish_result_set (base arp) \<longrightarrow>
                    finish_result_error_code (base arp') = resulting))))
   \<and> (request_tag request = AWS_S3_AUTO_RANGED_PUT_REQUEST_TAG_CREATE_MULTIPART_UPLOAD \<longrightarrow>
      (let resulting =
             (if error_code = AWS_ERROR_SUCCESS \<and> upload_id_tag response = None
              then AWS_ERROR_S3_MISSING_UPLOAD_ID else error_code)
       in \<exists>arp''. s_s3_auto_ranged_put_request_finished arp request response error_code user_result
                     = Ok (arp'', [])
          \<and> list_parts_error_code arp'' = resulting
          \<and> create_multipart_upload_error_code arp'' = create_multipart_upload_error_code arp
          \<and> (resulting \<noteq> AWS_ERROR_SUCCESS \<longrightarrow>
               base arp'' = aws_s3_meta_request_set_fail_synced (base arp) resulting
               \<and> finish_result_set (base arp'')
               \<and> (\<not> finish_result_set (base arp) \<longrightarrow>
                    finish_result_error_code (base arp'') = resulting))))"
proof (intro conjI impI)
  assume tag: "request_tag request = AWS_S3_AUTO_RANGED_PUT_REQUEST_TAG_LIST_PARTS"
    and fin: "s_s3_auto_ranged_put_request_finished arp request response error_code user_result
              = Ok (arp', calls)"
  from fin tag have lp: "request_finished_list_parts arp response error_code = Ok (arp', calls)"
    by (simp add: s_s3_auto_ranged_put_request_finished_def)
  show "let resulting =
             (if error_code = AWS_ERROR_SUCCESS \<and> \<not> page_parsed response
              then AWS_ERROR_S3_LIST_PARTS_PARSE_FAILED else error_code)
       in create_multipart_upload_error_code arp' = resulting
          \<and> list_parts_error_code arp' = list_parts_error_code arp
          \<and> (resulting \<noteq> AWS_ERROR_SUCCESS \<longrightarrow>
               base arp' = aws_s3_meta_request_set_fail_synced (base arp) resulting
               \<and> finish_result_set (base arp')
               \<and> (\<not> finish_result_set (base arp) \<longrightarrow>
                    finish_result_error_code (base arp') = resulting))"
  proof (cases "error_code = AWS_ERROR_SUCCESS")
    case False
    with lp show ?thesis
      by (auto simp: request_finished_list_parts_def list_parts_finish_def Let_def
          set_fail_synced_def aws_s3_meta_request_set_fail_synced_def)
  next
    case True
    with lp obtain arp1 where pp: "process_parts arp (page_parts response) = Ok arp1"
      by (auto simp: request_finished_list_parts_def split: outcome.splits)
    have fr: "arp1 = arp\<lparr>checksums_list := checksums_list arp1, etag_list := etag_list arp1\<rparr>"
      using process_parts_frame [OF pp] by simp
    have b: "base arp1 = base arp" "list_parts_error_code arp1 = list_parts_error_code arp"
      by (subst fr, simp)+
    from lp True pp b show ?thesis
      by (auto simp: request_finished_list_parts_def list_parts_finish_def Let_def
          set_fail_synced_def aws_s3_meta_request_set_fail_synced_def
          split: prod.splits if_splits)
  qed
next
  assume tag: "request_tag request = AWS_S3_AUTO_RANGED_PUT_REQUEST_TAG_CREATE_MULTIPART_UPLOAD"
  then show "let resulting =
             (if error_code = AWS_ERROR_SUCCESS \<and> upload_id_tag response = None
              then AWS_ERROR_S3_MISSING_UPLOAD_ID else error_code)
       in \<exists>arp''. s_s3_auto_ranged_put_request_finished arp request response error_code user_result
                     = Ok (arp'', [])
          \<and> list_parts_error_code arp'' = resulting
          \<and> create_multipart_upload_error_code arp'' = create_multipart_upload_error_code arp
          \<and> (resulting \<noteq> AWS_ERROR_SUCCESS \<longrightarrow>
               base arp'' = aws_s3_meta_request_set_fail_synced (base arp) resulting
               \<and> finish_result_set (base arp'')
               \<and> (\<not> finish_result_set (base arp) \<longrightarrow>
                    finish_result_error_code (base arp'') = resulting))"
    by (auto simp: s_s3_auto_ranged_put_request_finished_def
        request_finished_create_multipart_upload_def Let_def
        set_fail_synced_def aws_s3_meta_request_set_fail_synced_def split: option.splits)
qed

theorem error_codes_cross_wired_witness:
  "(\<exists>arp'. s_s3_auto_ranged_put_request_finished resumed_put
              (tag_request AWS_S3_AUTO_RANGED_PUT_REQUEST_TAG_LIST_PARTS) bare_response
              (AWS_ERROR_OTHER 1) None = Ok (arp', [])
          \<and> create_multipart_upload_error_code arp' = AWS_ERROR_OTHER 1
          \<and> list_parts_error_code arp' = AWS_ERROR_SUCCESS
          \<and> finish_result_error_code (base arp') = AWS_ERROR_OTHER 1)
   \<and> (\<exists>arp'. s_s3_auto_ranged_put_request_finished fresh_put
              (tag_request AWS_S3_AUTO_RANGED_PUT_REQUEST_TAG_CREATE_MULTIPART_UPLOAD) bare_response
              AWS_ERROR_SUCCESS None = Ok (arp', [])
          \<and> list_parts_error_code arp' = AWS_ERROR_S3_MISSING_UPLOAD_ID
          \<and> create_multipart_upload_error_code arp' = AWS_ERROR_SUCCESS
          \<and> finish_result_error_code (base arp') = AWS_ERROR_S3_MISSING_UPLOAD_ID)"
proof -
  let ?lp = "tag_request AWS_S3_AUTO_RANGED_PUT_REQUEST_TAG_LIST_PARTS"
  let ?cr = "tag_request AWS_S3_AUTO_RANGED_PUT_REQUEST_TAG_CREATE_MULTIPART_UPLOAD"
  let ?a = "set_fail_synced
              (resumed_put\<lparr>list_parts_completed := True,
                           create_multipart_upload_error_code := AWS_ERROR_OTHER 1\<rparr>)
              (AWS_ERROR_OTHER 1)"
  have fin: "s_s3_auto_ranged_put_request_finished resumed_put ?lp bare_response
               (AWS_ERROR_OTHER 1) None = Ok (?a, [])"
    by (simp add: s_s3_auto_ranged_put_request_finished_def tag_request_def
        aws_s3_request_new_def request_finished_list_parts_def list_parts_finish_def)
  have unset: "\<not> finish_result_set (base resumed_put)" "\<not> finish_result_set (base fresh_put)"
    "list_parts_error_code resumed_put = AWS_ERROR_SUCCESS"
    "create_multipart_upload_error_code fresh_put = AWS_ERROR_SUCCESS"
    by (simp_all add: resumed_put_def fresh_put_def aws_mem_calloc_def
        aws_s3_meta_request_init_base_def)
  have tags: "request_tag ?lp = AWS_S3_AUTO_RANGED_PUT_REQUEST_TAG_LIST_PARTS"
    "request_tag ?cr = AWS_S3_AUTO_RANGED_PUT_REQUEST_TAG_CREATE_MULTIPART_UPLOAD"
    by (simp_all add: tag_request_def aws_s3_request_new_def)
  have resp: "upload_id_tag bare_response = None" by (simp add: bare_response_def)
  from error_codes_cross_wired [of ?lp resumed_put bare_response "AWS_ERROR_OTHER 1" None ?a "[]"]
    fin unset tags
  have first: "create_multipart_upload_error_code ?a = AWS_ERROR_OTHER 1
          \<and> list_parts_error_code ?a = AWS_ERROR_SUCCESS
          \<and> finish_result_error_code (base ?a) = AWS_ERROR_OTHER 1"
    by (simp add: Let_def set_fail_synced_def aws_s3_meta_request_set_fail_synced_def)
  from error_codes_cross_wired [of ?cr fresh_put bare_response AWS_ERROR_SUCCESS None]
    unset tags resp
  have second: "\<exists>arp'. s_s3_auto_ranged_put_request_finished fresh_put ?cr bare_response
              AWS_ERROR_SUCCESS None = Ok (arp', [])
          \<and> list_parts_error_code arp' = AWS_ERROR_S3_MISSING_UPLOAD_ID
          \<and> create_multipart_upload_error_code arp' = AWS_ERROR_SUCCESS
          \<and> finish_result_error_code (base arp') = AWS_ERROR_S3_MISSING_UPLOAD_ID"
    by (auto simp add: Let_def)
  from fin first second show ?thesis by blast
qed

text \<open>
  Claim C9. For a PART request that the HTTP layer reports as successful but whose response
  headers hold no ETag header, \<open>finished_request\<close> takes the error code
  \<open>AWS_ERROR_S3_MISSING_UPLOAD_ID\<close> (the upload-id error, not one of the ETag), increments
  \<open>num_parts_failed\<close> and not \<open>num_parts_successful\<close>, and sets the finish result of the meta
  request (to that code when none was set before); the ETag list stays as it was.
\<close>

theorem part_without_etag_fails:
  assumes "request_tag request = AWS_S3_AUTO_RANGED_PUT_REQUEST_TAG_PART"
    and "0 < part_number request"
    and "aws_http_headers_get (response_headers response) g_etag_header_name = None"
  shows "\<exists>arp'. s_s3_auto_ranged_put_request_finished arp request response AWS_ERROR_SUCCESS user_result
                  = Ok (arp', [])
           \<and> base arp' = aws_s3_meta_request_set_fail_synced (base arp) AWS_ERROR_S3_MISSING_UPLOAD_ID
           \<and> finish_result_set (base arp')
           \<and> (\<not> finish_result_set (base arp) \<longrightarrow>
                finish_result_error_code (base arp') = AWS_ERROR_S3_MISSING_UPLOAD_ID)
           \<and> num_parts_failed arp' = num_parts_failed arp + 1
           \<and> num_parts_successful arp' = num_parts_successful arp
           \<and> num_parts_completed arp' = num_parts_completed arp + 1
           \<and> etag_list arp' = etag_list arp"
  using assms
  by (simp add: s_s3_auto_ranged_put_request_finished_def request_finished_part_def Let_def
      set_fail_synced_def aws_s3_meta_request_set_fail_synced_def)

theorem part_without_etag_fails_witness:
  "request_tag (part_request 2) = AWS_S3_AUTO_RANGED_PUT_REQUEST_TAG_PART
   \<and> 0 < part_number (part_request 2)
   \<and> aws_http_headers_get (response_headers bare_response) g_etag_header_name = None
   \<and> (\<exists>arp'. s_s3_auto_ranged_put_request_finished fresh_put (part_request 2) bare_response
                 AWS_ERROR_SUCCESS None = Ok (arp', [])
          \<and> finish_result_error_code (base arp') = AWS_ERROR_S3_MISSING_UPLOAD_ID
          \<and> num_parts_failed arp' = 1
          \<and> num_parts_successful arp' = 0
          \<and> etag_list arp' = [None, None, None, None])"
proof -
  have h: "request_tag (part_request 2) = AWS_S3_AUTO_RANGED_PUT_REQUEST_TAG_PART"
    "0 < part_number (part_request 2)"
    "aws_http_headers_get (response_headers bare_response) g_etag_header_name = None"
    by (simp_all add: part_request_def aws_s3_request_new_def bare_response_def
        aws_http_headers_get_def)
  have f: "\<not> finish_result_set (base fresh_put)" "num_parts_failed fresh_put = 0"
    "num_parts_successful fresh_put = 0" "etag_list fresh_put = [None, None, None, None]"
    by (simp_all add: fresh_put_def aws_mem_calloc_def aws_s3_meta_request_init_base_def)
  from part_without_etag_fails [OF h, of fresh_put None] f h show ?thesis
    by auto
qed

text \<open>
  Claim C10. For every successfully completed PART request of a meta request with a progress
  callback, the progress report handed to the callback has \<open>bytes_transferred\<close> equal to the
  configured \<open>part_size\<close> and \<open>content_length\<close> equal to the whole content length, whatever
  the part: also for the last part, whose body may be smaller than \<open>part_size\<close> (1 MiB against
  8 MiB in the witness).
\<close>

theorem progress_reports_part_size:
  assumes "request_tag request = AWS_S3_AUTO_RANGED_PUT_REQUEST_TAG_PART"
    and "0 < part_number request"
    and "aws_http_headers_get (response_headers response) g_etag_header_name = Some etag_within_quotes"
    and "progress_callback (base arp)"
  shows "\<exists>arp'. s_s3_auto_ranged_put_request_finished arp request response AWS_ERROR_SUCCESS user_result
                  = Ok (arp', [Progress_callback (part_size (base arp)) (content_length arp)])"
  using assms
  by (simp add: s_s3_auto_ranged_put_request_finished_def request_finished_part_def Let_def)

theorem progress_reports_part_size_witness:
  "request_tag (part_request 4) = AWS_S3_AUTO_RANGED_PUT_REQUEST_TAG_PART
   \<and> 0 < part_number (part_request 4)
   \<and> aws_http_headers_get (response_headers (etag_response ''e4'')) g_etag_header_name
       = Some (CHR 0x22 # ''e4'' @ [CHR 0x22])
   \<and> progress_callback (base fresh_put)
   \<and> s_compute_request_body_size fresh_put (part_number (part_request 4)) = Ok 1048576
   \<and> (\<exists>arp'. s_s3_auto_ranged_put_request_finished fresh_put (part_request 4)
                 (etag_response ''e4'') AWS_ERROR_SUCCESS None
               = Ok (arp', [Progress_callback 8388608 26214400]))"
proof -
  have h: "request_tag (part_request 4) = AWS_S3_AUTO_RANGED_PUT_REQUEST_TAG_PART"
    "0 < part_number (part_request 4)"
    "aws_http_headers_get (response_headers (etag_response ''e4'')) g_etag_header_name
       = Some (CHR 0x22 # ''e4'' @ [CHR 0x22])"
    "progress_callback (base fresh_put)"
    by (simp_all add: part_request_def aws_s3_request_new_def bare_response_def
        etag_response_def aws_http_headers_get_def g_etag_header_name_def
        fresh_put_def aws_mem_calloc_def aws_s3_meta_request_init_base_def fresh_options_def)
  have sz: "s_compute_request_body_size fresh_put (part_number (part_request 4)) = Ok 1048576"
    by (simp add: s_compute_request_body_size_def part_request_def aws_s3_request_new_def
        fresh_put_def aws_mem_calloc_def aws_s3_meta_request_init_base_def)
  have f: "part_size (base fresh_put) = 8388608" "content_length fresh_put = 26214400"
    by (simp_all add: fresh_put_def aws_mem_calloc_def aws_s3_meta_request_init_base_def)
  from progress_reports_part_size [OF h, of None] f h sz show ?thesis
    by auto
qed

subsection \<open>update and the frame of each operation\<close>

lemmas update_defs =
  s_s3_auto_ranged_put_update_def has_work_remaining_def no_work_remaining_def
  aws_s3_meta_request_has_finish_result_synced_def aws_s3_request_new_def Let_def

lemma update_abort_branch:
  assumes "finish_result_set (base arp)"
  shows "s_s3_auto_ranged_put_update arp flags =
     (if \<not> create_multipart_upload_sent arp then no_work_remaining arp
         else if \<not> create_multipart_upload_completed arp then has_work_remaining arp None
         else if num_parts_completed arp < num_parts_sent arp then has_work_remaining arp None
         else if complete_multipart_upload_sent arp \<and> \<not> complete_multipart_upload_completed arp then
           has_work_remaining arp None
         else if finish_result_error_code (base arp) = AWS_ERROR_S3_PAUSED
                 \<or> finish_result_error_code (base arp) = AWS_ERROR_S3_RESUME_FAILED then
           no_work_remaining arp
         else if complete_multipart_upload_completed arp
                 \<and> complete_multipart_upload_error_code arp = AWS_ERROR_SUCCESS then
           no_work_remaining arp
         else if \<not> abort_multipart_upload_sent arp then
           (if upload_id arp = None then no_work_remaining arp
            else
              has_work_remaining (arp\<lparr>abort_multipart_upload_sent := True\<rparr>) (Some abort_request))
         else if \<not> abort_multipart_upload_completed arp then has_work_remaining arp None
         else no_work_remaining arp)"
  using assms
  by (auto simp add: s_s3_auto_ranged_put_update_def aws_s3_meta_request_has_finish_result_synced_def
      abort_request_def)

lemma update_abort_only_when_failed:
  assumes "s_s3_auto_ranged_put_update arp flags = Ok (arp', work, Some r)"
    and "request_tag r = AWS_S3_AUTO_RANGED_PUT_REQUEST_TAG_ABORT_MULTIPART_UPLOAD"
  shows "finish_result_set (base arp)"
  using assms
  by (auto simp: update_defs split: if_splits)

lemma update_abort_sent_mono:
  assumes "s_s3_auto_ranged_put_update arp flags = Ok (arp', work, r)"
  shows "abort_multipart_upload_sent arp \<Longrightarrow> abort_multipart_upload_sent arp'"
  using assms
  by (auto simp: update_defs aws_s3_meta_request_set_success_synced_def split: if_splits)

lemma update_frame:
  assumes "s_s3_auto_ranged_put_update arp flags = Ok (arp', work, r)"
  shows "num_parts_completed arp' = num_parts_completed arp"
    and "num_parts_successful arp' = num_parts_successful arp"
    and "num_parts_failed arp' = num_parts_failed arp"
    and "total_num_parts arp' = total_num_parts arp"
    and "etag_list arp' = etag_list arp"
    and "checksums_list arp' = checksums_list arp"
    and "list_parts_completed arp' = list_parts_completed arp"
    and "create_multipart_upload_completed arp' = create_multipart_upload_completed arp"
    and "upload_id arp' = upload_id arp"
    and "content_length arp' = content_length arp"
    and "part_size (base arp') = part_size (base arp)"
  using assms
  by (auto simp: update_defs aws_s3_meta_request_set_success_synced_def split: if_splits)

lemma list_parts_finish_frame:
  assumes "list_parts_finish arp has_more e = Ok (arp', calls)"
  shows "arp' = (if e \<noteq> AWS_ERROR_SUCCESS then set_fail_synced
            (arp\<lparr>list_parts_completed := \<not> has_more, create_multipart_upload_error_code := e\<rparr>) e
          else arp\<lparr>list_parts_completed := \<not> has_more, create_multipart_upload_error_code := e\<rparr>)"
  using assms by (auto simp: list_parts_finish_def Let_def)

lemma request_finished_list_parts_frame:
  assumes "request_finished_list_parts arp response error_code = Ok (arp', calls)"
  shows "abort_multipart_upload_sent arp' = abort_multipart_upload_sent arp"
    and "list_parts_sent arp' = list_parts_sent arp"
    and "create_multipart_upload_sent arp' = create_multipart_upload_sent arp"
    and "create_multipart_upload_completed arp' = create_multipart_upload_completed arp"
    and "total_num_parts arp' = total_num_parts arp"
    and "length (etag_list arp') = length (etag_list arp)"
    and "num_parts_successful arp' = num_parts_successful arp"
    and "num_parts_failed arp' = num_parts_failed arp"
proof -
  have "abort_multipart_upload_sent arp' = abort_multipart_upload_sent arp
    \<and> list_parts_sent arp' = list_parts_sent arp
    \<and> create_multipart_upload_sent arp' = create_multipart_upload_sent arp
    \<and> create_multipart_upload_completed arp' = create_multipart_upload_completed arp
    \<and> total_num_parts arp' = total_num_parts arp
    \<and> length (etag_list arp') = length (etag_list arp)
    \<and> num_parts_successful arp' = num_parts_successful arp
    \<and> num_parts_failed arp' = num_parts_failed arp"
  proof (cases "error_code = AWS_ERROR_SUCCESS")
    case False
    with assms show ?thesis
      by (auto simp: request_finished_list_parts_def dest!: list_parts_finish_frame)
  next
    case True
    with assms obtain arp1 where pp: "process_parts arp (page_parts response) = Ok arp1"
      by (auto simp: request_finished_list_parts_def split: outcome.splits)
    have fr: "arp1 = arp\<lparr>checksums_list := checksums_list arp1, etag_list := etag_list arp1\<rparr>"
      and len: "length (etag_list arp1) = length (etag_list arp)"
      using process_parts_frame [OF pp] by simp_all
    have b: "abort_multipart_upload_sent arp1 = abort_multipart_upload_sent arp"
      "list_parts_sent arp1 = list_parts_sent arp"
      "create_multipart_upload_sent arp1 = create_multipart_upload_sent arp"
      "create_multipart_upload_completed arp1 = create_multipart_upload_completed arp"
      "total_num_parts arp1 = total_num_parts arp"
      "num_parts_successful arp1 = num_parts_successful arp"
      "num_parts_failed arp1 = num_parts_failed arp"
      by (subst fr, simp)+
    from assms True pp b len show ?thesis
      by (auto simp: request_finished_list_parts_def Let_def
          split: prod.splits if_splits dest!: list_parts_finish_frame)
  qed
  then show "abort_multipart_upload_sent arp' = abort_multipart_upload_sent arp"
    and "list_parts_sent arp' = list_parts_sent arp"
    and "create_multipart_upload_sent arp' = create_multipart_upload_sent arp"
    and "create_multipart_upload_completed arp' = create_multipart_upload_completed arp"
    and "total_num_parts arp' = total_num_parts arp"
    and "length (etag_list arp') = length (etag_list arp)"
    and "num_parts_successful arp' = num_parts_successful arp"
    and "num_parts_failed arp' = num_parts_failed arp"
    by simp_all
qed

lemma request_finished_frame:
  assumes "s_s3_auto_ranged_put_request_finished arp request response error_code user_result
           = Ok (arp', calls)"
  shows "abort_multipart_upload_sent arp' = abort_multipart_upload_sent arp"
    and "list_parts_sent arp' = list_parts_sent arp"
    and "create_multipart_upload_sent arp' = create_multipart_upload_sent arp"
    and "total_num_parts arp' = total_num_parts arp"
    and "length (etag_list arp') = length (etag_list arp)"
    and "create_multipart_upload_completed arp \<Longrightarrow> create_multipart_upload_completed arp'"
proof -
  have "abort_multipart_upload_sent arp' = abort_multipart_upload_sent arp
    \<and> list_parts_sent arp' = list_parts_sent arp
    \<and> create_multipart_upload_sent arp' = create_multipart_upload_sent arp
    \<and> total_num_parts arp' = total_num_parts arp
    \<and> length (etag_list arp') = length (etag_list arp)
    \<and> (create_multipart_upload_completed arp \<longrightarrow> create_multipart_upload_completed arp')"
  proof (cases "request_tag request")
    case AWS_S3_AUTO_RANGED_PUT_REQUEST_TAG_LIST_PARTS
    with assms have "request_finished_list_parts arp response error_code = Ok (arp', calls)"
      by (simp add: s_s3_auto_ranged_put_request_finished_def)
    from request_finished_list_parts_frame [OF this] show ?thesis by simp
  next
    case AWS_S3_AUTO_RANGED_PUT_REQUEST_TAG_CREATE_MULTIPART_UPLOAD
    with assms show ?thesis
      by (auto simp: s_s3_auto_ranged_put_request_finished_def
          request_finished_create_multipart_upload_def Let_def split: option.splits if_splits)
  next
    case AWS_S3_AUTO_RANGED_PUT_REQUEST_TAG_PART
    with assms show ?thesis
      by (auto simp: s_s3_auto_ranged_put_request_finished_def
          request_finished_part_def Let_def aws_array_list_set_at_def
          split: option.splits if_splits)
  next
    case AWS_S3_AUTO_RANGED_PUT_REQUEST_TAG_COMPLETE_MULTIPART_UPLOAD
    with assms show ?thesis
      by (auto simp: s_s3_auto_ranged_put_request_finished_def
          request_finished_complete_multipart_upload_def Let_def split: option.splits if_splits)
  next
    case AWS_S3_AUTO_RANGED_PUT_REQUEST_TAG_ABORT_MULTIPART_UPLOAD
    with assms show ?thesis
      by (auto simp: s_s3_auto_ranged_put_request_finished_def
          request_finished_abort_multipart_upload_def)
  qed
  then show "abort_multipart_upload_sent arp' = abort_multipart_upload_sent arp"
    and "list_parts_sent arp' = list_parts_sent arp"
    and "create_multipart_upload_sent arp' = create_multipart_upload_sent arp"
    and "total_num_parts arp' = total_num_parts arp"
    and "length (etag_list arp') = length (etag_list arp)"
    and "create_multipart_upload_completed arp \<Longrightarrow> create_multipart_upload_completed arp'"
    by simp_all
qed

lemma pause_frame:
  assumes "s_s3_auto_ranged_put_pause json_string arp = Ok (arp', token, code)"
  shows "arp' = set_fail_synced arp AWS_ERROR_S3_PAUSED"
  using assms
  by (auto simp: s_s3_auto_ranged_put_pause_def Let_def split: if_splits option.splits)

subsection \<open>The abort branch\<close>

lemma update_abort_request:
  assumes "s_s3_auto_ranged_put_update arp flags = Ok (arp', work, Some r)"
    and "request_tag r = AWS_S3_AUTO_RANGED_PUT_REQUEST_TAG_ABORT_MULTIPART_UPLOAD"
  shows "r = abort_request" and "\<not> abort_multipart_upload_sent arp"
    and "abort_multipart_upload_sent arp'"
    and "create_multipart_upload_sent arp" and "create_multipart_upload_completed arp"
    and "\<not> num_parts_completed arp < num_parts_sent arp"
    and "\<not> (complete_multipart_upload_sent arp \<and> \<not> complete_multipart_upload_completed arp)"
    and "finish_result_error_code (base arp) \<noteq> AWS_ERROR_S3_PAUSED"
    and "finish_result_error_code (base arp) \<noteq> AWS_ERROR_S3_RESUME_FAILED"
    and "\<not> (complete_multipart_upload_completed arp
            \<and> complete_multipart_upload_error_code arp = AWS_ERROR_SUCCESS)"
    and "upload_id arp \<noteq> None"
proof -
  have f: "finish_result_set (base arp)"
    using update_abort_only_when_failed [OF assms] .
  from assms show "r = abort_request" and "\<not> abort_multipart_upload_sent arp"
    and "abort_multipart_upload_sent arp'"
    and "create_multipart_upload_sent arp" and "create_multipart_upload_completed arp"
    and "\<not> num_parts_completed arp < num_parts_sent arp"
    and "\<not> (complete_multipart_upload_sent arp \<and> \<not> complete_multipart_upload_completed arp)"
    and "finish_result_error_code (base arp) \<noteq> AWS_ERROR_S3_PAUSED"
    and "finish_result_error_code (base arp) \<noteq> AWS_ERROR_S3_RESUME_FAILED"
    and "\<not> (complete_multipart_upload_completed arp
            \<and> complete_multipart_upload_error_code arp = AWS_ERROR_SUCCESS)"
    and "upload_id arp \<noteq> None"
    unfolding update_abort_branch [OF f]
    by (auto simp: has_work_remaining_def no_work_remaining_def split: if_splits)
qed

lemma update_failed_request:
  assumes "finish_result_set (base arp)"
    and "s_s3_auto_ranged_put_update arp flags = Ok (arp', work, Some r)"
  shows "r = abort_request"
  using assms(2) unfolding update_abort_branch [OF assms(1)]
  by (auto simp: has_work_remaining_def no_work_remaining_def split: if_splits)

lemma abort_request_tag:
  "request_tag abort_request = AWS_S3_AUTO_RANGED_PUT_REQUEST_TAG_ABORT_MULTIPART_UPLOAD"
  "AWS_S3_REQUEST_FLAG_ALWAYS_SEND \<in> request_flags abort_request"
  by (simp_all add: abort_request_def aws_s3_request_new_def)

lemma step_abort_once:
  assumes "step json_string sys e = Some sys'" and "abort_once sys"
  shows "abort_once sys'"
proof (cases e)
  case (Update flags)
  with assms(1) obtain arp' work r
    where up: "s_s3_auto_ranged_put_update (put sys) flags = Ok (arp', work, r)"
      and sys': "sys' = hand_out sys arp' r"
    by (auto split: outcome.splits)
  show ?thesis
  proof (cases r)
    case None
    with sys' have "put sys' = arp'" "sent_requests sys' = sent_requests sys"
      by (simp_all add: hand_out_def)
    with assms(2) update_abort_sent_mono [OF up] show ?thesis
      by (auto simp: abort_once_def split: if_splits)
  next
    case (Some req)
    with sys' have s: "put sys' = arp'" "sent_requests sys' = sent_requests sys @ [req]"
      by (simp_all add: hand_out_def)
    show ?thesis
    proof (cases "request_tag req = AWS_S3_AUTO_RANGED_PUT_REQUEST_TAG_ABORT_MULTIPART_UPLOAD")
      case True
      from update_abort_request(2,3) [OF up [unfolded Some] True] assms(2) s True
      show ?thesis
        by (auto simp: abort_once_def tagged_def split: if_splits)
    next
      case False
      with assms(2) s update_abort_sent_mono [OF up] show ?thesis
        by (auto simp: abort_once_def tagged_def split: if_splits)
    qed
  qed
next
  case (Finished request response error_code user_result)
  with assms(1) obtain arp' calls
    where fin: "s_s3_auto_ranged_put_request_finished (put sys) request response error_code
                  user_result = Ok (arp', calls)"
      and sys': "sys' = sys\<lparr>put := arp', in_flight := remove1 request (in_flight sys)\<rparr>"
    by (auto split: if_splits outcome.splits)
  from assms(2) request_finished_frame(1) [OF fin] sys' show ?thesis
    by (auto simp: abort_once_def split: if_splits)
next
  case Pause
  with assms(1) obtain arp' token code
    where "s_s3_auto_ranged_put_pause json_string (put sys) = Ok (arp', token, code)"
      and sys': "sys' = sys\<lparr>put := arp'\<rparr>"
    by (auto split: outcome.splits)
  from pause_frame [OF this(1)] assms(2) sys' show ?thesis
    by (auto simp: abort_once_def split: if_splits)
qed

lemma run_abort_once:
  assumes "run json_string sys es = Some sys'" and "abort_once sys"
  shows "abort_once sys'"
  using assms
proof (induction es arbitrary: sys)
  case Nil
  then show ?case by simp
next
  case (Cons e es)
  then show ?case
    by (auto split: option.splits dest: step_abort_once)
qed

lemma new_no_abort:
  assumes "aws_s3_meta_request_auto_ranged_put_new min_size max_parts part_sz content_len
             num_parts options = Ok arp"
  shows "\<not> abort_multipart_upload_sent arp"
  using assms
  by (auto simp: aws_s3_meta_request_auto_ranged_put_new_def s_load_persistable_state_def
      aws_mem_calloc_def Let_def split: outcome.splits if_splits option.splits)

lemma failing_run_reaches:
  "run constant_json_string (start fresh_put) (take 4 failing_run) =
     Some \<lparr>put = failed_put, in_flight = [],
           sent_requests =
             [tag_request AWS_S3_AUTO_RANGED_PUT_REQUEST_TAG_CREATE_MULTIPART_UPLOAD,
              part_request 1]\<rparr>"
  by code_simp

lemma failing_run_result:
  "run constant_json_string (start fresh_put) failing_run =
     Some \<lparr>put = failed_put\<lparr>abort_multipart_upload_sent := True\<rparr>, in_flight = [abort_request],
           sent_requests =
             [tag_request AWS_S3_AUTO_RANGED_PUT_REQUEST_TAG_CREATE_MULTIPART_UPLOAD,
              part_request 1, abort_request]\<rparr>"
  by code_simp

text \<open>
  Claim C3. With a finish result set, \<open>update\<close> runs the abort branch. It waits (work
  remaining, no request) while a create-multipart-upload that was sent or parts in flight have
  not completed. The only request it hands out is ABORT_MULTIPART_UPLOAD with the ALWAYS_SEND
  flag, and it does so only if the finish error is neither PAUSED nor RESUME_FAILED, the
  complete-multipart-upload has not succeeded, the upload id is not NULL and no abort was sent
  before; under these conditions (and no complete-multipart-upload in flight) it does hand it
  out. No abort request comes from the other branch, and in every run of a constructed meta
  request at most one abort request is handed out.
\<close>

theorem abort_multipart_upload_once:
  "(finish_result_set (base arp) \<and> create_multipart_upload_sent arp
      \<and> (\<not> create_multipart_upload_completed arp \<or> num_parts_completed arp < num_parts_sent arp)
    \<longrightarrow> s_s3_auto_ranged_put_update arp flags = Ok (arp, True, None))
   \<and> (s_s3_auto_ranged_put_update arp flags = Ok (arp', work, Some r)
        \<and> (finish_result_set (base arp)
            \<or> request_tag r = AWS_S3_AUTO_RANGED_PUT_REQUEST_TAG_ABORT_MULTIPART_UPLOAD)
    \<longrightarrow> r = abort_request
        \<and> AWS_S3_REQUEST_FLAG_ALWAYS_SEND \<in> request_flags r
        \<and> finish_result_set (base arp)
        \<and> create_multipart_upload_completed arp
        \<and> \<not> num_parts_completed arp < num_parts_sent arp
        \<and> finish_result_error_code (base arp) \<noteq> AWS_ERROR_S3_PAUSED
        \<and> finish_result_error_code (base arp) \<noteq> AWS_ERROR_S3_RESUME_FAILED
        \<and> \<not> (complete_multipart_upload_completed arp
               \<and> complete_multipart_upload_error_code arp = AWS_ERROR_SUCCESS)
        \<and> upload_id arp \<noteq> None
        \<and> \<not> abort_multipart_upload_sent arp
        \<and> abort_multipart_upload_sent arp')
   \<and> (finish_result_set (base arp)
        \<and> create_multipart_upload_sent arp \<and> create_multipart_upload_completed arp
        \<and> \<not> num_parts_completed arp < num_parts_sent arp
        \<and> \<not> (complete_multipart_upload_sent arp \<and> \<not> complete_multipart_upload_completed arp)
        \<and> finish_result_error_code (base arp) \<noteq> AWS_ERROR_S3_PAUSED
        \<and> finish_result_error_code (base arp) \<noteq> AWS_ERROR_S3_RESUME_FAILED
        \<and> \<not> (complete_multipart_upload_completed arp
               \<and> complete_multipart_upload_error_code arp = AWS_ERROR_SUCCESS)
        \<and> upload_id arp \<noteq> None
        \<and> \<not> abort_multipart_upload_sent arp
    \<longrightarrow> s_s3_auto_ranged_put_update arp flags
          = Ok (arp\<lparr>abort_multipart_upload_sent := True\<rparr>, True, Some abort_request))
   \<and> (aws_s3_meta_request_auto_ranged_put_new min_size max_parts part_sz content_len
          num_parts options = Ok arp0
        \<and> run json_string (start arp0) events = Some sys
    \<longrightarrow> length (tagged AWS_S3_AUTO_RANGED_PUT_REQUEST_TAG_ABORT_MULTIPART_UPLOAD
                  (sent_requests sys)) \<le> 1)"
proof (intro conjI impI)
  assume "finish_result_set (base arp) \<and> create_multipart_upload_sent arp
      \<and> (\<not> create_multipart_upload_completed arp \<or> num_parts_completed arp < num_parts_sent arp)"
  then show "s_s3_auto_ranged_put_update arp flags = Ok (arp, True, None)"
    by (auto simp: update_abort_branch has_work_remaining_def)
next
  assume a: "s_s3_auto_ranged_put_update arp flags = Ok (arp', work, Some r)
        \<and> (finish_result_set (base arp)
            \<or> request_tag r = AWS_S3_AUTO_RANGED_PUT_REQUEST_TAG_ABORT_MULTIPART_UPLOAD)"
  then have up: "s_s3_auto_ranged_put_update arp flags = Ok (arp', work, Some r)" by simp
  have r: "r = abort_request"
    using a update_failed_request [OF _ up] update_abort_request(1) [OF up] by blast
  then have tag: "request_tag r = AWS_S3_AUTO_RANGED_PUT_REQUEST_TAG_ABORT_MULTIPART_UPLOAD"
    by (simp add: abort_request_tag)
  note facts = update_abort_request [OF up tag] update_abort_only_when_failed [OF up tag]
  show "r = abort_request" by (rule r)
  show "AWS_S3_REQUEST_FLAG_ALWAYS_SEND \<in> request_flags r"
    using r by (simp add: abort_request_tag)
  show "finish_result_set (base arp)" by (rule facts)
  show "create_multipart_upload_completed arp" by (rule facts)
  show "\<not> num_parts_completed arp < num_parts_sent arp" by (rule facts)
  show "finish_result_error_code (base arp) \<noteq> AWS_ERROR_S3_PAUSED" by (rule facts)
  show "finish_result_error_code (base arp) \<noteq> AWS_ERROR_S3_RESUME_FAILED" by (rule facts)
  show "\<not> (complete_multipart_upload_completed arp
               \<and> complete_multipart_upload_error_code arp = AWS_ERROR_SUCCESS)" by (rule facts)
  show "upload_id arp \<noteq> None" by (rule facts)
  show "\<not> abort_multipart_upload_sent arp" by (rule facts)
  show "abort_multipart_upload_sent arp'" by (rule facts)
next
  assume "finish_result_set (base arp)
        \<and> create_multipart_upload_sent arp \<and> create_multipart_upload_completed arp
        \<and> \<not> num_parts_completed arp < num_parts_sent arp
        \<and> \<not> (complete_multipart_upload_sent arp \<and> \<not> complete_multipart_upload_completed arp)
        \<and> finish_result_error_code (base arp) \<noteq> AWS_ERROR_S3_PAUSED
        \<and> finish_result_error_code (base arp) \<noteq> AWS_ERROR_S3_RESUME_FAILED
        \<and> \<not> (complete_multipart_upload_completed arp
               \<and> complete_multipart_upload_error_code arp = AWS_ERROR_SUCCESS)
        \<and> upload_id arp \<noteq> None
        \<and> \<not> abort_multipart_upload_sent arp"
  then show "s_s3_auto_ranged_put_update arp flags
          = Ok (arp\<lparr>abort_multipart_upload_sent := True\<rparr>, True, Some abort_request)"
    by (auto simp: update_abort_branch has_work_remaining_def)
next
  assume a: "aws_s3_meta_request_auto_ranged_put_new min_size max_parts part_sz content_len
          num_parts options = Ok arp0
        \<and> run json_string (start arp0) events = Some sys"
  then have "abort_once (start arp0)"
    using new_no_abort [of min_size max_parts part_sz content_len num_parts options arp0]
    by (simp add: abort_once_def start_def tagged_def)
  with a have "abort_once sys"
    using run_abort_once by blast
  then show "length (tagged AWS_S3_AUTO_RANGED_PUT_REQUEST_TAG_ABORT_MULTIPART_UPLOAD
                  (sent_requests sys)) \<le> 1"
    by (auto simp: abort_once_def split: if_splits)
qed

theorem abort_multipart_upload_once_witness:
  "aws_s3_meta_request_auto_ranged_put_new 5242880 10000 8388608 26214400 4 fresh_options
     = Ok fresh_put
   \<and> run constant_json_string (start fresh_put) (take 4 failing_run)
       = Some \<lparr>put = failed_put, in_flight = [],
               sent_requests =
                 [tag_request AWS_S3_AUTO_RANGED_PUT_REQUEST_TAG_CREATE_MULTIPART_UPLOAD,
                  part_request 1]\<rparr>
   \<and> s_s3_auto_ranged_put_update failed_put {}
       = Ok (failed_put\<lparr>abort_multipart_upload_sent := True\<rparr>, True, Some abort_request)
   \<and> (\<exists>sys. run constant_json_string (start fresh_put) failing_run = Some sys
         \<and> tagged AWS_S3_AUTO_RANGED_PUT_REQUEST_TAG_ABORT_MULTIPART_UPLOAD (sent_requests sys)
             = [abort_request]
         \<and> length (tagged AWS_S3_AUTO_RANGED_PUT_REQUEST_TAG_ABORT_MULTIPART_UPLOAD
                     (sent_requests sys)) \<le> 1)"
proof -
  let ?sys = "\<lparr>put = failed_put\<lparr>abort_multipart_upload_sent := True\<rparr>, in_flight = [abort_request],
           sent_requests =
             [tag_request AWS_S3_AUTO_RANGED_PUT_REQUEST_TAG_CREATE_MULTIPART_UPLOAD,
              part_request 1, abort_request]\<rparr>"
  have pre: "finish_result_set (base failed_put)
        \<and> create_multipart_upload_sent failed_put \<and> create_multipart_upload_completed failed_put
        \<and> \<not> num_parts_completed failed_put < num_parts_sent failed_put
        \<and> \<not> (complete_multipart_upload_sent failed_put
               \<and> \<not> complete_multipart_upload_completed failed_put)
        \<and> finish_result_error_code (base failed_put) \<noteq> AWS_ERROR_S3_PAUSED
        \<and> finish_result_error_code (base failed_put) \<noteq> AWS_ERROR_S3_RESUME_FAILED
        \<and> \<not> (complete_multipart_upload_completed failed_put
               \<and> complete_multipart_upload_error_code failed_put = AWS_ERROR_SUCCESS)
        \<and> upload_id failed_put \<noteq> None
        \<and> \<not> abort_multipart_upload_sent failed_put"
    by (simp add: failed_put_def fresh_put_def aws_mem_calloc_def)
  note inst = abort_multipart_upload_once [of failed_put "{}" _ _ _ 5242880 10000 8388608 26214400 4
      fresh_options fresh_put constant_json_string failing_run ?sys]
  from inst pre have emit: "s_s3_auto_ranged_put_update failed_put {}
       = Ok (failed_put\<lparr>abort_multipart_upload_sent := True\<rparr>, True, Some abort_request)"
    by blast
  from inst fresh_put_new failing_run_result
  have once: "length (tagged AWS_S3_AUTO_RANGED_PUT_REQUEST_TAG_ABORT_MULTIPART_UPLOAD
                     (sent_requests ?sys)) \<le> 1"
    by blast
  have tg: "tagged AWS_S3_AUTO_RANGED_PUT_REQUEST_TAG_ABORT_MULTIPART_UPLOAD (sent_requests ?sys)
             = [abort_request]"
    by (simp add: tagged_def tag_request_def part_request_def abort_request_def
        aws_s3_request_new_def)
  from fresh_put_new failing_run_reaches emit failing_run_result once tg show ?thesis
    by simp
qed

subsection \<open>The part counters\<close>

lemma tagged_append:
  "tagged t (xs @ [r]) = tagged t xs @ (if request_tag r = t then [r] else [])"
  by (simp add: tagged_def)

lemma tagged_remove1_other:
  assumes "request_tag r \<noteq> t"
  shows "tagged t (remove1 r xs) = tagged t xs"
  using assms by (induction xs) (auto simp: tagged_def)

lemma tagged_remove1_same:
  assumes "r \<in> set xs" and "request_tag r = t"
  shows "length (tagged t xs) = Suc (length (tagged t (remove1 r xs)))"
  using assms by (induction xs) (auto simp: tagged_def)

lemma unat_inc32:
  fixes x y :: "32 word"
  assumes "unat x < unat y"
  shows "unat (x + 1) = Suc (unat x)"
proof -
  have "unat y < 2 ^ 32"
    using unsigned_less [of y, where ?'a = nat] by simp
  with assms show ?thesis
    by (simp add: unat_word_ariths)
qed

lemma unat_populated:
  fixes n :: "32 word"
  assumes "length etags = unat n"
  shows "unat (word_of_nat (populated etags) :: 32 word) = populated etags"
proof -
  have "populated etags \<le> length etags"
    by (simp add: populated_def)
  moreover have "unat n < 2 ^ 32"
    using unsigned_less [of n, where ?'a = nat] by simp
  ultimately have "populated etags < 2 ^ LENGTH(32)"
    using assms by simp
  then show ?thesis
    by (simp add: unat_of_nat)
qed

lemma update_sent:
  assumes "s_s3_auto_ranged_put_update arp flags = Ok (arp', work, r)"
  shows "(case r of
            None \<Rightarrow> num_parts_sent arp' = num_parts_sent arp
                     \<and> list_parts_sent arp' = list_parts_sent arp
          | Some req \<Rightarrow>
              if request_tag req = AWS_S3_AUTO_RANGED_PUT_REQUEST_TAG_LIST_PARTS then
                \<not> list_parts_sent arp \<and> list_parts_sent arp'
                \<and> num_parts_sent arp' = num_parts_sent arp
              else if request_tag req = AWS_S3_AUTO_RANGED_PUT_REQUEST_TAG_PART then
                list_parts_sent arp \<and> list_parts_completed arp
                \<and> num_parts_sent arp < total_num_parts arp
                \<and> num_parts_sent arp' = num_parts_sent arp + 1
                \<and> list_parts_sent arp' = list_parts_sent arp
              else num_parts_sent arp' = num_parts_sent arp
                   \<and> list_parts_sent arp' = list_parts_sent arp)"
  using assms
  by (auto simp: update_defs aws_s3_meta_request_set_success_synced_def split: if_splits)

lemma list_parts_sweep:
  assumes fin: "request_finished_list_parts arp response error_code = Ok (arp', calls)"
    and zero: "num_parts_sent arp = 0" "num_parts_completed arp = 0"
  shows "num_parts_sent arp' =
           (if error_code = AWS_ERROR_SUCCESS \<and> page_parsed response
               \<and> \<not> page_has_more_results response
            then word_of_nat (populated (etag_list arp')) else 0)"
    and "num_parts_completed arp' = num_parts_sent arp'"
    and "list_parts_completed arp'
           = (\<not> (error_code = AWS_ERROR_SUCCESS \<and> page_has_more_results response))"
proof -
  have "num_parts_sent arp' =
           (if error_code = AWS_ERROR_SUCCESS \<and> page_parsed response
               \<and> \<not> page_has_more_results response
            then word_of_nat (populated (etag_list arp')) else 0)
    \<and> num_parts_completed arp' = num_parts_sent arp'
    \<and> list_parts_completed arp'
           = (\<not> (error_code = AWS_ERROR_SUCCESS \<and> page_has_more_results response))"
  proof (cases "error_code = AWS_ERROR_SUCCESS")
    case False
    with fin zero show ?thesis
      by (auto simp: request_finished_list_parts_def dest!: list_parts_finish_frame)
  next
    case True
    with fin obtain arp1 where pp: "process_parts arp (page_parts response) = Ok arp1"
      by (auto simp: request_finished_list_parts_def split: outcome.splits)
    have fr: "arp1 = arp\<lparr>checksums_list := checksums_list arp1, etag_list := etag_list arp1\<rparr>"
      using process_parts_frame [OF pp] by simp
    have b: "num_parts_sent arp1 = 0" "num_parts_completed arp1 = 0"
      using zero by (subst fr, simp)+
    from fin True pp b show ?thesis
      by (auto simp: request_finished_list_parts_def Let_def count_uploaded_parts_eq
          populated_def split: if_splits dest!: list_parts_finish_frame)
  qed
  then show "num_parts_sent arp' =
           (if error_code = AWS_ERROR_SUCCESS \<and> page_parsed response
               \<and> \<not> page_has_more_results response
            then word_of_nat (populated (etag_list arp')) else 0)"
    and "num_parts_completed arp' = num_parts_sent arp'"
    and "list_parts_completed arp'
           = (\<not> (error_code = AWS_ERROR_SUCCESS \<and> page_has_more_results response))"
    by simp_all
qed

lemma request_finished_part_counters:
  assumes "request_finished_part arp request response error_code = Ok (arp', calls)"
  shows "num_parts_completed arp' = num_parts_completed arp + 1"
    and "num_parts_sent arp' = num_parts_sent arp"
    and "num_parts_successful arp' = num_parts_successful arp + 1
           \<and> num_parts_failed arp' = num_parts_failed arp
         \<or> num_parts_successful arp' = num_parts_successful arp
           \<and> num_parts_failed arp' = num_parts_failed arp + 1"
    and "list_parts_completed arp' = list_parts_completed arp"
  using assms
  by (auto simp: request_finished_part_def Let_def split: if_splits option.splits)

lemma request_finished_other_counters:
  assumes "s_s3_auto_ranged_put_request_finished arp request response error_code user_result
           = Ok (arp', calls)"
    and "request_tag request \<noteq> AWS_S3_AUTO_RANGED_PUT_REQUEST_TAG_PART"
    and "request_tag request \<noteq> AWS_S3_AUTO_RANGED_PUT_REQUEST_TAG_LIST_PARTS"
  shows "num_parts_completed arp' = num_parts_completed arp"
    and "num_parts_sent arp' = num_parts_sent arp"
    and "num_parts_successful arp' = num_parts_successful arp"
    and "num_parts_failed arp' = num_parts_failed arp"
    and "list_parts_completed arp' = list_parts_completed arp"
  using assms
  by (cases "request_tag request";
      auto simp: s_s3_auto_ranged_put_request_finished_def
        request_finished_create_multipart_upload_def
        request_finished_complete_multipart_upload_def
        request_finished_abort_multipart_upload_def Let_def split: if_splits option.splits)+

lemma step_put_invariant:
  assumes st: "step json_string sys e = Some sys'" and inv: "put_invariant sys"
  shows "put_invariant sys'"
proof (cases e)
  case (Update flags)
  with st obtain arp' work r
    where up: "s_s3_auto_ranged_put_update (put sys) flags = Ok (arp', work, r)"
      and sys': "sys' = hand_out sys arp' r"
    by (auto split: outcome.splits)
  note fr = update_frame [OF up]
  note sent = update_sent [OF up]
  show ?thesis
  proof (cases r)
    case None
    with sys' have s: "put sys' = arp'" "in_flight sys' = in_flight sys"
      by (simp_all add: hand_out_def)
    from inv sent None show ?thesis
      unfolding put_invariant_def s fr by auto
  next
    case (Some req)
    with sys' have s: "put sys' = arp'" "in_flight sys' = in_flight sys @ [req]"
      by (simp_all add: hand_out_def)
    consider (lp) "request_tag req = AWS_S3_AUTO_RANGED_PUT_REQUEST_TAG_LIST_PARTS"
      | (part) "request_tag req = AWS_S3_AUTO_RANGED_PUT_REQUEST_TAG_PART"
      | (other) "request_tag req \<noteq> AWS_S3_AUTO_RANGED_PUT_REQUEST_TAG_LIST_PARTS"
          "request_tag req \<noteq> AWS_S3_AUTO_RANGED_PUT_REQUEST_TAG_PART"
      by blast
    then show ?thesis
    proof cases
      case lp
      with sent Some have a: "\<not> list_parts_sent (put sys)" "list_parts_sent arp'"
        "num_parts_sent arp' = num_parts_sent (put sys)"
        by simp_all
      from inv a(1) have "tagged AWS_S3_AUTO_RANGED_PUT_REQUEST_TAG_LIST_PARTS (in_flight sys) = []"
        "\<not> list_parts_completed (put sys)"
        by (auto simp: put_invariant_def)
      with inv a lp show ?thesis
        unfolding put_invariant_def s fr tagged_append by auto
    next
      case part
      with sent Some have a: "list_parts_sent (put sys)" "list_parts_completed (put sys)"
        "num_parts_sent (put sys) < total_num_parts (put sys)"
        "num_parts_sent arp' = num_parts_sent (put sys) + 1"
        "list_parts_sent arp' = list_parts_sent (put sys)"
        by simp_all
      have lt: "unat (num_parts_sent (put sys)) < unat (total_num_parts (put sys))"
        using a(3) by (simp add: word_less_nat_alt)
      have inc: "unat (num_parts_sent arp') = Suc (unat (num_parts_sent (put sys)))"
        using unat_inc32 [OF lt] a(4) by simp
      from inv a part lt inc show ?thesis
        unfolding put_invariant_def s fr tagged_append by auto
    next
      case other
      with sent Some have a: "num_parts_sent arp' = num_parts_sent (put sys)"
        "list_parts_sent arp' = list_parts_sent (put sys)"
        by simp_all
      from inv a other show ?thesis
        unfolding put_invariant_def s fr tagged_append by auto
    qed
  qed
next
  case (Finished request response error_code user_result)
  with st obtain arp' calls
    where fin: "s_s3_auto_ranged_put_request_finished (put sys) request response error_code
                  user_result = Ok (arp', calls)"
      and mem: "request \<in> set (in_flight sys)"
      and sys': "sys' = sys\<lparr>put := arp', in_flight := remove1 request (in_flight sys)\<rparr>"
    by (auto split: if_splits outcome.splits)
  have s: "put sys' = arp'" "in_flight sys' = remove1 request (in_flight sys)"
    using sys' by simp_all
  note fr = request_finished_frame [OF fin]
  consider (lp) "request_tag request = AWS_S3_AUTO_RANGED_PUT_REQUEST_TAG_LIST_PARTS"
    | (part) "request_tag request = AWS_S3_AUTO_RANGED_PUT_REQUEST_TAG_PART"
    | (other) "request_tag request \<noteq> AWS_S3_AUTO_RANGED_PUT_REQUEST_TAG_LIST_PARTS"
        "request_tag request \<noteq> AWS_S3_AUTO_RANGED_PUT_REQUEST_TAG_PART"
    by blast
  then show ?thesis
  proof cases
    case lp
    note one = tagged_remove1_same [OF mem lp]
    then have ne: "tagged AWS_S3_AUTO_RANGED_PUT_REQUEST_TAG_LIST_PARTS (in_flight sys) \<noteq> []"
      by auto
    with inv have st0: "list_parts_sent (put sys)" "\<not> list_parts_completed (put sys)"
      "num_parts_sent (put sys) = 0" "num_parts_completed (put sys) = 0"
      by (auto simp: put_invariant_def)
    from inv one
    have none: "tagged AWS_S3_AUTO_RANGED_PUT_REQUEST_TAG_LIST_PARTS
                  (remove1 request (in_flight sys)) = []"
      by (auto simp: put_invariant_def)
    have parts: "tagged AWS_S3_AUTO_RANGED_PUT_REQUEST_TAG_PART (remove1 request (in_flight sys))
                 = tagged AWS_S3_AUTO_RANGED_PUT_REQUEST_TAG_PART (in_flight sys)"
      using lp by (simp add: tagged_remove1_other)
    from inv st0 have nopart:
      "length (tagged AWS_S3_AUTO_RANGED_PUT_REQUEST_TAG_PART (in_flight sys)) = 0"
      by (simp add: put_invariant_def)
    from fin lp have lpf: "request_finished_list_parts (put sys) response error_code
                            = Ok (arp', calls)"
      by (simp add: s_s3_auto_ranged_put_request_finished_def)
    note sw = list_parts_sweep [OF lpf st0(3,4)]
    note lfr = request_finished_list_parts_frame [OF lpf]
    have len: "length (etag_list arp') = unat (total_num_parts arp')"
      using inv fr by (simp add: put_invariant_def)
    have pop: "unat (word_of_nat (populated (etag_list arp')) :: 32 word)
                 = populated (etag_list arp')"
      by (rule unat_populated [OF len])
    have le: "populated (etag_list arp') \<le> unat (total_num_parts arp')"
      using len by (simp add: populated_def flip: len)
    have sf: "unat (num_parts_successful arp') + unat (num_parts_failed arp') = 0"
      using inv st0 lfr by (simp add: put_invariant_def)
    show ?thesis
      unfolding put_invariant_def s
      using sw len pop le sf none parts nopart fr(2) st0(1)
      by (auto split: if_splits)
  next
    case part
    from fin part have pf: "request_finished_part (put sys) request response error_code
                             = Ok (arp', calls)"
      by (simp add: s_s3_auto_ranged_put_request_finished_def)
    note pc = request_finished_part_counters [OF pf]
    have parts: "length (tagged AWS_S3_AUTO_RANGED_PUT_REQUEST_TAG_PART (in_flight sys))
                 = Suc (length (tagged AWS_S3_AUTO_RANGED_PUT_REQUEST_TAG_PART
                                  (remove1 request (in_flight sys))))"
      by (rule tagged_remove1_same [OF mem part])
    have lps: "tagged AWS_S3_AUTO_RANGED_PUT_REQUEST_TAG_LIST_PARTS (remove1 request (in_flight sys))
                = tagged AWS_S3_AUTO_RANGED_PUT_REQUEST_TAG_LIST_PARTS (in_flight sys)"
      using part by (simp add: tagged_remove1_other)
    from inv parts have lt: "unat (num_parts_completed (put sys)) < unat (num_parts_sent (put sys))"
      by (simp add: put_invariant_def)
    have inc: "unat (num_parts_completed arp') = Suc (unat (num_parts_completed (put sys)))"
      using unat_inc32 [OF lt] pc(1) by simp
    from inv have sfle: "unat (num_parts_successful (put sys)) + unat (num_parts_failed (put sys))
                           \<le> unat (num_parts_completed (put sys))"
      by (simp add: put_invariant_def)
    with lt have sl: "unat (num_parts_successful (put sys)) < unat (num_parts_sent (put sys))"
      and fl: "unat (num_parts_failed (put sys)) < unat (num_parts_sent (put sys))"
      by linarith+
    have nz: "num_parts_sent (put sys) \<noteq> 0"
      using lt by (auto simp: unat_eq_0)
    from pc(3) have sf: "unat (num_parts_successful arp') + unat (num_parts_failed arp')
            = Suc (unat (num_parts_successful (put sys)) + unat (num_parts_failed (put sys)))"
      using unat_inc32 [OF sl] unat_inc32 [OF fl] by auto
    show ?thesis
      unfolding put_invariant_def s
      using inv [unfolded put_invariant_def] parts lps inc sf pc(2,4) fr nz
      by auto
  next
    case other
    note oc = request_finished_other_counters [OF fin other(2) other(1)]
    have parts: "tagged AWS_S3_AUTO_RANGED_PUT_REQUEST_TAG_PART (remove1 request (in_flight sys))
                 = tagged AWS_S3_AUTO_RANGED_PUT_REQUEST_TAG_PART (in_flight sys)"
      using other by (simp add: tagged_remove1_other)
    have lps: "tagged AWS_S3_AUTO_RANGED_PUT_REQUEST_TAG_LIST_PARTS (remove1 request (in_flight sys))
                 = tagged AWS_S3_AUTO_RANGED_PUT_REQUEST_TAG_LIST_PARTS (in_flight sys)"
      using other by (simp add: tagged_remove1_other)
    show ?thesis
      unfolding put_invariant_def s
      using inv [unfolded put_invariant_def] parts lps oc fr
      by auto
  qed
next
  case Pause
  with st obtain arp' token code
    where "s_s3_auto_ranged_put_pause json_string (put sys) = Ok (arp', token, code)"
      and sys': "sys' = sys\<lparr>put := arp'\<rparr>"
    by (auto split: outcome.splits)
  from pause_frame [OF this(1)] inv sys' show ?thesis
    by (simp add: put_invariant_def)
qed

lemma run_invariant:
  assumes "\<And>sys e sys'. step json_string sys e = Some sys' \<Longrightarrow> P sys \<Longrightarrow> P sys'"
    and "run json_string sys es = Some sys'" and "P sys"
  shows "P sys'"
  using assms(2,3)
proof (induction es arbitrary: sys)
  case Nil
  then show ?case by simp
next
  case (Cons e es)
  from Cons.prems(1) obtain sys1 where s1: "step json_string sys e = Some sys1"
    and r1: "run json_string sys1 es = Some sys'"
    by (auto split: option.splits)
  from assms(1) [OF s1 Cons.prems(2)] have "P sys1" .
  from Cons.IH [OF r1 this] show ?case .
qed

lemma update_create_sent_mono:
  assumes "s_s3_auto_ranged_put_update arp flags = Ok (arp', work, r)"
    and "create_multipart_upload_sent arp"
  shows "create_multipart_upload_sent arp'"
  using assms
  by (auto simp: update_defs aws_s3_meta_request_set_success_synced_def split: if_splits)

lemma step_created:
  assumes st: "step json_string sys e = Some sys'" and c: "created sys"
  shows "created sys'"
proof (cases e)
  case (Update flags)
  with st obtain arp' work r
    where up: "s_s3_auto_ranged_put_update (put sys) flags = Ok (arp', work, r)"
      and sys': "sys' = hand_out sys arp' r"
    by (auto split: outcome.splits)
  have "put sys' = arp'" using sys' by (simp add: hand_out_def split: option.splits)
  with c update_frame(8) [OF up] update_create_sent_mono [OF up] show ?thesis
    by (simp add: created_def)
next
  case (Finished request response error_code user_result)
  with st obtain arp' calls
    where fin: "s_s3_auto_ranged_put_request_finished (put sys) request response error_code
                  user_result = Ok (arp', calls)"
      and sys': "sys' = sys\<lparr>put := arp', in_flight := remove1 request (in_flight sys)\<rparr>"
    by (auto split: if_splits outcome.splits)
  from c request_finished_frame(3,6) [OF fin] sys' show ?thesis
    by (simp add: created_def)
next
  case Pause
  with st obtain arp' token code
    where "s_s3_auto_ranged_put_pause json_string (put sys) = Ok (arp', token, code)"
      and sys': "sys' = sys\<lparr>put := arp'\<rparr>"
    by (auto split: outcome.splits)
  from pause_frame [OF this(1)] c sys' show ?thesis
    by (simp add: created_def)
qed

lemma step_fresh_invariant:
  assumes st: "step json_string sys e = Some sys'"
    and inv: "put_invariant sys \<and> fresh_invariant sys"
  shows "put_invariant sys' \<and> fresh_invariant sys'"
proof
  show pi: "put_invariant sys'"
    using step_put_invariant [OF st] inv by simp
  from inv have f: "fresh_invariant sys" and p: "put_invariant sys" by simp_all
  show "fresh_invariant sys'"
  proof (cases e)
    case (Update flags)
    with st obtain arp' work r
      where up: "s_s3_auto_ranged_put_update (put sys) flags = Ok (arp', work, r)"
        and sys': "sys' = hand_out sys arp' r"
      by (auto split: outcome.splits)
    note fr = update_frame(1,2,3) [OF up]
    note sent = update_sent [OF up]
    show ?thesis
    proof (cases r)
      case None
      with sys' have s: "put sys' = arp'" "in_flight sys' = in_flight sys"
        by (simp_all add: hand_out_def)
      from f sent None show ?thesis
        unfolding fresh_invariant_def s fr by auto
    next
      case (Some req)
      with sys' have s: "put sys' = arp'" "in_flight sys' = in_flight sys @ [req]"
        by (simp_all add: hand_out_def)
      from f sent Some show ?thesis
        unfolding fresh_invariant_def s fr tagged_append by (auto split: if_splits)
    qed
  next
    case (Finished request response error_code user_result)
    with st obtain arp' calls
      where fin: "s_s3_auto_ranged_put_request_finished (put sys) request response error_code
                    user_result = Ok (arp', calls)"
        and mem: "request \<in> set (in_flight sys)"
        and sys': "sys' = sys\<lparr>put := arp', in_flight := remove1 request (in_flight sys)\<rparr>"
      by (auto split: if_splits outcome.splits)
    have s: "put sys' = arp'" "in_flight sys' = remove1 request (in_flight sys)"
      using sys' by simp_all
    note fr = request_finished_frame [OF fin]
    have notlp: "request_tag request \<noteq> AWS_S3_AUTO_RANGED_PUT_REQUEST_TAG_LIST_PARTS"
      using tagged_remove1_same [OF mem, of AWS_S3_AUTO_RANGED_PUT_REQUEST_TAG_LIST_PARTS] f
      by (auto simp: fresh_invariant_def)
    have lps: "tagged AWS_S3_AUTO_RANGED_PUT_REQUEST_TAG_LIST_PARTS (remove1 request (in_flight sys))
                 = tagged AWS_S3_AUTO_RANGED_PUT_REQUEST_TAG_LIST_PARTS (in_flight sys)"
      using notlp by (simp add: tagged_remove1_other)
    show ?thesis
    proof (cases "request_tag request = AWS_S3_AUTO_RANGED_PUT_REQUEST_TAG_PART")
      case True
      from fin True have pf: "request_finished_part (put sys) request response error_code
                               = Ok (arp', calls)"
        by (simp add: s_s3_auto_ranged_put_request_finished_def)
      note pc = request_finished_part_counters [OF pf]
      have parts: "length (tagged AWS_S3_AUTO_RANGED_PUT_REQUEST_TAG_PART (in_flight sys))
                 = Suc (length (tagged AWS_S3_AUTO_RANGED_PUT_REQUEST_TAG_PART
                                  (remove1 request (in_flight sys))))"
        by (rule tagged_remove1_same [OF mem True])
      from p parts have lt: "unat (num_parts_completed (put sys)) < unat (num_parts_sent (put sys))"
        by (simp add: put_invariant_def)
      have inc: "unat (num_parts_completed arp') = Suc (unat (num_parts_completed (put sys)))"
        using unat_inc32 [OF lt] pc(1) by simp
      from f have sfeq: "unat (num_parts_successful (put sys)) + unat (num_parts_failed (put sys))
                           = unat (num_parts_completed (put sys))"
        by (simp add: fresh_invariant_def)
      with lt have sl: "unat (num_parts_successful (put sys)) < unat (num_parts_sent (put sys))"
        and fl: "unat (num_parts_failed (put sys)) < unat (num_parts_sent (put sys))"
        by linarith+
      from pc(3) have sf: "unat (num_parts_successful arp') + unat (num_parts_failed arp')
            = Suc (unat (num_parts_successful (put sys)) + unat (num_parts_failed (put sys)))"
        using unat_inc32 [OF sl] unat_inc32 [OF fl] by auto
      show ?thesis
        unfolding fresh_invariant_def s
        using f [unfolded fresh_invariant_def] lps inc sf fr(2) by simp
    next
      case False
      note oc = request_finished_other_counters [OF fin False notlp]
      show ?thesis
        unfolding fresh_invariant_def s
        using f [unfolded fresh_invariant_def] lps oc fr(2) by simp
    qed
  next
    case Pause
    with st obtain arp' token code
      where "s_s3_auto_ranged_put_pause json_string (put sys) = Ok (arp', token, code)"
        and sys': "sys' = sys\<lparr>put := arp'\<rparr>"
      by (auto split: outcome.splits)
    from pause_frame [OF this(1)] f sys' show ?thesis
      by (simp add: fresh_invariant_def)
  qed
qed

lemma new_fields:
  assumes "aws_s3_meta_request_auto_ranged_put_new min_size max_parts part_sz content_len
             num_parts options = Ok arp"
  shows "num_parts_sent arp = 0" and "num_parts_completed arp = 0"
    and "num_parts_successful arp = 0" and "num_parts_failed arp = 0"
    and "length (etag_list arp) = unat (total_num_parts arp)"
    and "list_parts_sent arp = (resume_token options = None)"
    and "list_parts_completed arp = (resume_token options = None)"
    and "create_multipart_upload_sent arp = (resume_token options \<noteq> None)"
    and "create_multipart_upload_completed arp = (resume_token options \<noteq> None)"
    and "\<not> finish_result_set (base arp)"
  using assms
  by (auto simp: aws_s3_meta_request_auto_ranged_put_new_def s_load_persistable_state_def
      aws_mem_calloc_def aws_s3_meta_request_init_base_def Let_def
      split: outcome.splits if_splits option.splits)

lemma new_put_invariant:
  assumes "aws_s3_meta_request_auto_ranged_put_new min_size max_parts part_sz content_len
             num_parts options = Ok arp"
  shows "put_invariant (start arp)"
  using new_fields [OF assms]
  by (auto simp: put_invariant_def start_def tagged_def)

lemma new_fresh_invariant:
  assumes "aws_s3_meta_request_auto_ranged_put_new min_size max_parts part_sz content_len
             num_parts options = Ok arp"
    and "resume_token options = None"
  shows "fresh_invariant (start arp)"
  using new_fields [OF assms(1)] assms(2)
  by (auto simp: fresh_invariant_def start_def tagged_def)

lemma new_created:
  assumes "aws_s3_meta_request_auto_ranged_put_new min_size max_parts part_sz content_len
             num_parts options = Ok arp"
    and "resume_token options \<noteq> None"
  shows "created (start arp)"
  using new_fields [OF assms(1)] assms(2)
  by (auto simp: created_def start_def)

lemma resume_run_result:
  "run constant_json_string (start resumed_put) resume_run =
     Some \<lparr>put = listed_put, in_flight = [],
           sent_requests = [tag_request AWS_S3_AUTO_RANGED_PUT_REQUEST_TAG_LIST_PARTS]\<rparr>"
  by code_simp

lemma resume_run_before:
  "run constant_json_string (start resumed_put) [Update {}] =
     Some \<lparr>put = resumed_put\<lparr>list_parts_sent := True\<rparr>,
           in_flight = [tag_request AWS_S3_AUTO_RANGED_PUT_REQUEST_TAG_LIST_PARTS],
           sent_requests = [tag_request AWS_S3_AUTO_RANGED_PUT_REQUEST_TAG_LIST_PARTS]\<rparr>"
  by code_simp

lemma list_parts_page_finished:
  "s_s3_auto_ranged_put_request_finished (resumed_put\<lparr>list_parts_sent := True\<rparr>)
     (tag_request AWS_S3_AUTO_RANGED_PUT_REQUEST_TAG_LIST_PARTS) list_parts_page
     AWS_ERROR_SUCCESS None = Ok (listed_put, [])"
  by code_simp

lemma run_put_invariant:
  assumes "run json_string sys es = Some sys'" and "put_invariant sys"
  shows "put_invariant sys'"
  by (rule run_invariant [where P = put_invariant, OF _ assms]) (rule step_put_invariant)

lemma run_fresh_invariant:
  assumes "run json_string sys es = Some sys'" and "put_invariant sys \<and> fresh_invariant sys"
  shows "put_invariant sys' \<and> fresh_invariant sys'"
  by (rule run_invariant [where P = "\<lambda>s. put_invariant s \<and> fresh_invariant s", OF _ assms])
    (rule step_fresh_invariant)

lemma run_created:
  assumes "run json_string sys es = Some sys'" and "created sys"
  shows "created sys'"
  by (rule run_invariant [where P = created, OF _ assms]) (rule step_created)

text \<open>
  On a resumed upload the sweep after the last list-parts page counts every part the server
  reported as sent and completed, and as neither successful nor failed: after it the two sides
  of \<open>num_parts_successful + num_parts_failed = num_parts_completed\<close> are 0 and 2.
\<close>

theorem part_counters_resumed_counterexample:
  "aws_s3_meta_request_auto_ranged_put_new 5242880 10000 8388608 26214400 4 resume_options
     = Ok resumed_put
   \<and> run constant_json_string (start resumed_put) resume_run
       = Some \<lparr>put = listed_put, in_flight = [],
               sent_requests = [tag_request AWS_S3_AUTO_RANGED_PUT_REQUEST_TAG_LIST_PARTS]\<rparr>
   \<and> num_parts_completed listed_put = 2
   \<and> num_parts_successful listed_put + num_parts_failed listed_put = 0
   \<and> num_parts_successful listed_put + num_parts_failed listed_put
       \<noteq> num_parts_completed listed_put"
  using resumed_put_new resume_run_result
  by (simp add: listed_put_def resumed_put_def aws_mem_calloc_def)

text \<open>
  Claim C1, as amended. For every auto-ranged put, at every point of a run of \<open>update\<close>,
  \<open>finished_request\<close> (of requests handed out and not yet finished) and \<open>pause\<close>:
  \<open>0 \<le> num_parts_completed \<le> num_parts_sent \<le> total_num_parts\<close> and
  \<open>num_parts_successful + num_parts_failed \<le> num_parts_completed\<close>; for an upload constructed
  without a resume token, \<open>num_parts_successful + num_parts_failed = num_parts_completed\<close>.
\<close>

theorem part_counters_invariant:
  assumes "aws_s3_meta_request_auto_ranged_put_new min_size max_parts part_sz content_len
             num_parts options = Ok arp0"
    and "run json_string (start arp0) events = Some sys"
  shows "0 \<le> num_parts_completed (put sys)
         \<and> num_parts_completed (put sys) \<le> num_parts_sent (put sys)
         \<and> num_parts_sent (put sys) \<le> total_num_parts (put sys)
         \<and> unat (num_parts_successful (put sys)) + unat (num_parts_failed (put sys))
             \<le> unat (num_parts_completed (put sys))
         \<and> (resume_token options = None \<longrightarrow>
               unat (num_parts_successful (put sys)) + unat (num_parts_failed (put sys))
                 = unat (num_parts_completed (put sys))
               \<and> num_parts_successful (put sys) + num_parts_failed (put sys)
                   = num_parts_completed (put sys))"
proof -
  have p: "put_invariant sys"
    using run_put_invariant [OF assms(2)] new_put_invariant [OF assms(1)] by blast
  have f: "fresh_invariant sys" if "resume_token options = None"
  proof -
    have "put_invariant (start arp0) \<and> fresh_invariant (start arp0)"
      using new_put_invariant [OF assms(1)] new_fresh_invariant [OF assms(1) that] by simp
    with run_fresh_invariant [OF assms(2)]
    show ?thesis by blast
  qed
  have eq: "num_parts_successful (put sys) + num_parts_failed (put sys)
              = num_parts_completed (put sys)"
    if "unat (num_parts_successful (put sys)) + unat (num_parts_failed (put sys))
          = unat (num_parts_completed (put sys))"
  proof -
    have "word_of_nat (unat (num_parts_successful (put sys)) + unat (num_parts_failed (put sys)))
            = (word_of_nat (unat (num_parts_completed (put sys))) :: 32 word)"
      using that by simp
    then show ?thesis by simp
  qed
  from p f eq show ?thesis
    by (auto simp: put_invariant_def fresh_invariant_def word_le_nat_alt)
qed

theorem part_counters_invariant_witness:
  "aws_s3_meta_request_auto_ranged_put_new 5242880 10000 8388608 26214400 4 fresh_options
     = Ok fresh_put
   \<and> resume_token fresh_options = None
   \<and> run constant_json_string (start fresh_put) (take 4 failing_run)
       = Some \<lparr>put = failed_put, in_flight = [],
               sent_requests =
                 [tag_request AWS_S3_AUTO_RANGED_PUT_REQUEST_TAG_CREATE_MULTIPART_UPLOAD,
                  part_request 1]\<rparr>
   \<and> num_parts_completed failed_put \<le> num_parts_sent failed_put
   \<and> num_parts_sent failed_put \<le> total_num_parts failed_put
   \<and> num_parts_successful failed_put + num_parts_failed failed_put
       = num_parts_completed failed_put
   \<and> num_parts_completed failed_put = 1"
proof -
  have t: "resume_token fresh_options = None"
    by (simp add: fresh_options_def)
  have c: "num_parts_completed failed_put = 1"
    by (simp add: failed_put_def)
  from part_counters_invariant [OF fresh_put_new failing_run_reaches] t c
    fresh_put_new failing_run_reaches
  show ?thesis by simp
qed

text \<open>
  Claim C6. For every resumed upload, when the last LIST_PARTS page completes successfully (no
  more results), \<open>num_parts_sent\<close> and \<open>num_parts_completed\<close> are each the number of filled
  slots of the ETag list, both having been zero since \<open>s_load_persistable_state\<close> set them,
  and \<open>list_parts_completed\<close> becomes true, while \<open>create_multipart_upload_sent\<close> and
  \<open>create_multipart_upload_completed\<close> are true since load time.
\<close>

theorem list_parts_completion_counts:
  assumes "aws_s3_meta_request_auto_ranged_put_new min_size max_parts part_sz content_len
             num_parts options = Ok arp0"
    and "resume_token options \<noteq> None"
    and "run json_string (start arp0) events = Some sys"
    and "request \<in> set (in_flight sys)"
    and "request_tag request = AWS_S3_AUTO_RANGED_PUT_REQUEST_TAG_LIST_PARTS"
    and "s_s3_auto_ranged_put_request_finished (put sys) request response AWS_ERROR_SUCCESS
           user_result = Ok (arp', calls)"
    and "page_parsed response" and "\<not> page_has_more_results response"
  shows "num_parts_sent arp0 = 0 \<and> num_parts_completed arp0 = 0
         \<and> create_multipart_upload_sent arp0 \<and> create_multipart_upload_completed arp0
         \<and> num_parts_sent (put sys) = 0 \<and> num_parts_completed (put sys) = 0
         \<and> unat (num_parts_sent arp') = populated (etag_list arp')
         \<and> unat (num_parts_completed arp') = populated (etag_list arp')
         \<and> \<not> list_parts_completed (put sys) \<and> list_parts_completed arp'
         \<and> create_multipart_upload_sent arp' \<and> create_multipart_upload_completed arp'"
proof -
  note nf = new_fields [OF assms(1)]
  have p: "put_invariant sys"
    using run_put_invariant [OF assms(3)] new_put_invariant [OF assms(1)] by blast
  have c: "created sys"
    using run_created [OF assms(3)] new_created [OF assms(1,2)] by blast
  have ne: "tagged AWS_S3_AUTO_RANGED_PUT_REQUEST_TAG_LIST_PARTS (in_flight sys) \<noteq> []"
    using tagged_remove1_same [OF assms(4,5)] by auto
  with p have st0: "\<not> list_parts_completed (put sys)"
    "num_parts_sent (put sys) = 0" "num_parts_completed (put sys) = 0"
    by (auto simp: put_invariant_def)
  from assms(5,6) have lpf: "request_finished_list_parts (put sys) response AWS_ERROR_SUCCESS
                               = Ok (arp', calls)"
    by (simp add: s_s3_auto_ranged_put_request_finished_def)
  note sw = list_parts_sweep [OF lpf st0(2,3)]
  note fr = request_finished_frame [OF assms(6)]
  have len: "length (etag_list arp') = unat (total_num_parts arp')"
    using p fr by (simp add: put_invariant_def)
  have pop: "unat (word_of_nat (populated (etag_list arp')) :: 32 word)
               = populated (etag_list arp')"
    by (rule unat_populated [OF len])
  from nf assms(2) st0 sw assms(7,8) pop c fr(3,6) show ?thesis
    by (simp add: created_def)
qed

theorem list_parts_completion_counts_witness:
  "aws_s3_meta_request_auto_ranged_put_new 5242880 10000 8388608 26214400 4 resume_options
     = Ok resumed_put
   \<and> resume_token resume_options \<noteq> None
   \<and> run constant_json_string (start resumed_put) [Update {}]
       = Some \<lparr>put = resumed_put\<lparr>list_parts_sent := True\<rparr>,
           in_flight = [tag_request AWS_S3_AUTO_RANGED_PUT_REQUEST_TAG_LIST_PARTS],
           sent_requests = [tag_request AWS_S3_AUTO_RANGED_PUT_REQUEST_TAG_LIST_PARTS]\<rparr>
   \<and> s_s3_auto_ranged_put_request_finished (resumed_put\<lparr>list_parts_sent := True\<rparr>)
       (tag_request AWS_S3_AUTO_RANGED_PUT_REQUEST_TAG_LIST_PARTS) list_parts_page
       AWS_ERROR_SUCCESS None = Ok (listed_put, [])
   \<and> page_parsed list_parts_page \<and> \<not> page_has_more_results list_parts_page
   \<and> etag_list listed_put = [Some ''e1'', Some ''e2'', None, None]
   \<and> populated (etag_list listed_put) = 2
   \<and> num_parts_sent listed_put = 2 \<and> num_parts_completed listed_put = 2
   \<and> list_parts_completed listed_put
   \<and> create_multipart_upload_sent listed_put \<and> create_multipart_upload_completed listed_put"
proof -
  let ?lp = "tag_request AWS_S3_AUTO_RANGED_PUT_REQUEST_TAG_LIST_PARTS"
  let ?sys = "\<lparr>put = resumed_put\<lparr>list_parts_sent := True\<rparr>, in_flight = [?lp],
               sent_requests = [?lp]\<rparr>"
  have h: "resume_token resume_options \<noteq> None" "?lp \<in> set (in_flight ?sys)"
    "request_tag ?lp = AWS_S3_AUTO_RANGED_PUT_REQUEST_TAG_LIST_PARTS"
    "page_parsed list_parts_page" "\<not> page_has_more_results list_parts_page"
    by (simp_all add: resume_options_def tag_request_def aws_s3_request_new_def
        list_parts_page_def bare_response_def)
  have fin: "s_s3_auto_ranged_put_request_finished (put ?sys) ?lp list_parts_page
               AWS_ERROR_SUCCESS None = Ok (listed_put, [])"
    using list_parts_page_finished by simp
  have e: "etag_list listed_put = [Some ''e1'', Some ''e2'', None, None]"
    "populated (etag_list listed_put) = 2"
    "num_parts_sent listed_put = 2" "num_parts_completed listed_put = 2"
    by (simp_all add: listed_put_def populated_def)
  from list_parts_completion_counts [OF resumed_put_new h(1) resume_run_before h(2,3) fin h(4,5)]
    resumed_put_new h resume_run_before list_parts_page_finished e
  show ?thesis by simp
qed

subsection \<open>Skipping the parts uploaded before\<close>

text \<open>
  Claim C5. When preparation skips a part uploaded before (its size computed and its bytes read
  from the body stream and discarded), and the checksum algorithm is not NONE and the stored
  checksum of the part is not empty, the checksum of the bytes read is computed again and
  compared with the stored one, and the skip fails with RESUMED_PART_CHECKSUM_MISMATCH exactly
  when the two differ (a checksum that cannot be computed fails with RESUME_FAILED). With the
  algorithm NONE or an empty stored checksum nothing is compared and the skip of that part
  succeeds. The result of a part's skip is the result of \<open>s_skip_parts_from_stream\<close> unless it
  succeeds and the loop goes on to the next part.
\<close>

theorem skipped_part_checksum:
  assumes "s_compute_request_body_size arp (part_index + 1) = Ok request_body_size"
    and "read_body stream request_body_size = Ok (temp_body_buf, stream')"
  shows "(checksum_algorithm (base arp) \<noteq> AWS_SCA_NONE
            \<and> unat part_index < length (checksums_list arp)
            \<and> checksums_list arp ! unat part_index \<noteq> [] \<longrightarrow>
            (case checksum_compute (checksum_algorithm (base arp)) temp_body_buf of
               Some checksum \<Rightarrow>
                 (skip_part read_body checksum_compute arp stream part_index
                    = Err AWS_ERROR_S3_RESUMED_PART_CHECKSUM_MISMATCH
                  \<longleftrightarrow> checksum \<noteq> checksums_list arp ! unat part_index)
                 \<and> (skip_part read_body checksum_compute arp stream part_index = Ok stream'
                  \<longleftrightarrow> checksum = checksums_list arp ! unat part_index)
             | None \<Rightarrow>
                 skip_part read_body checksum_compute arp stream part_index
                   = Err AWS_ERROR_S3_RESUME_FAILED))
         \<and> (checksum_algorithm (base arp) = AWS_SCA_NONE
              \<or> unat part_index < length (checksums_list arp)
                \<and> checksums_list arp ! unat part_index = [] \<longrightarrow>
              skip_part read_body checksum_compute arp stream part_index = Ok stream')
         \<and> (part_index < skip_until_part_number \<longrightarrow>
              s_skip_parts_from_stream read_body checksum_compute arp stream part_index
                  skip_until_part_number
                = (case skip_part read_body checksum_compute arp stream part_index of
                     Ok stream1 \<Rightarrow>
                       skip_parts_loop read_body checksum_compute arp stream1 (part_index + 1)
                         skip_until_part_number
                   | Err e \<Rightarrow> Err e
                   | Crash f \<Rightarrow> Crash f))"
proof (intro conjI impI)
  assume "checksum_algorithm (base arp) \<noteq> AWS_SCA_NONE
            \<and> unat part_index < length (checksums_list arp)
            \<and> checksums_list arp ! unat part_index \<noteq> []"
  then show "case checksum_compute (checksum_algorithm (base arp)) temp_body_buf of
               Some checksum \<Rightarrow>
                 (skip_part read_body checksum_compute arp stream part_index
                    = Err AWS_ERROR_S3_RESUMED_PART_CHECKSUM_MISMATCH
                  \<longleftrightarrow> checksum \<noteq> checksums_list arp ! unat part_index)
                 \<and> (skip_part read_body checksum_compute arp stream part_index = Ok stream'
                  \<longleftrightarrow> checksum = checksums_list arp ! unat part_index)
             | None \<Rightarrow>
                 skip_part read_body checksum_compute arp stream part_index
                   = Err AWS_ERROR_S3_RESUME_FAILED"
    using assms by (simp add: skip_part_def split: option.splits)
next
  assume "checksum_algorithm (base arp) = AWS_SCA_NONE
              \<or> unat part_index < length (checksums_list arp)
                \<and> checksums_list arp ! unat part_index = []"
  then show "skip_part read_body checksum_compute arp stream part_index = Ok stream'"
    using assms by (auto simp: skip_part_def)
next
  assume "part_index < skip_until_part_number"
  then show "s_skip_parts_from_stream read_body checksum_compute arp stream part_index
                  skip_until_part_number
                = (case skip_part read_body checksum_compute arp stream part_index of
                     Ok stream1 \<Rightarrow>
                       skip_parts_loop read_body checksum_compute arp stream1 (part_index + 1)
                         skip_until_part_number
                   | Err e \<Rightarrow> Err e
                   | Crash f \<Rightarrow> Crash f)"
    using skip_parts_loop.simps [of read_body checksum_compute arp stream part_index
        skip_until_part_number]
    by (auto simp: s_skip_parts_from_stream_def)
qed

lemma small_put_size: "s_compute_request_body_size small_put (0 + 1) = Ok 4"
  by (simp add: s_compute_request_body_size_def small_put_def)

lemma small_read: 
  "list_read_body [1, 2, 3, 4, 5, 6, 7, 8, 9, 10] 4 = Ok ([1, 2, 3, 4], [5, 6, 7, 8, 9, 10])"
  "list_read_body [9, 2, 3, 4, 5, 6, 7, 8, 9, 10] 4 = Ok ([9, 2, 3, 4], [5, 6, 7, 8, 9, 10])"
  by (simp_all add: list_read_body_def)

theorem skipped_part_checksum_witness:
  "s_compute_request_body_size small_put (0 + 1) = Ok 4
   \<and> list_read_body [1, 2, 3, 4, 5, 6, 7, 8, 9, 10] 4 = Ok ([1, 2, 3, 4], [5, 6, 7, 8, 9, 10])
   \<and> list_read_body [9, 2, 3, 4, 5, 6, 7, 8, 9, 10] 4 = Ok ([9, 2, 3, 4], [5, 6, 7, 8, 9, 10])
   \<and> checksum_algorithm (base small_put) = AWS_SCA_CRC32C
   \<and> checksums_list small_put ! unat (0 :: 32 word) = [10]
   \<and> sum_checksum AWS_SCA_CRC32C [1, 2, 3, 4] = Some [10]
   \<and> sum_checksum AWS_SCA_CRC32C [9, 2, 3, 4] = Some [18]
   \<and> skip_part list_read_body sum_checksum small_put [1, 2, 3, 4, 5, 6, 7, 8, 9, 10] 0
       = Ok [5, 6, 7, 8, 9, 10]
   \<and> skip_part list_read_body sum_checksum small_put [9, 2, 3, 4, 5, 6, 7, 8, 9, 10] 0
       = Err AWS_ERROR_S3_RESUMED_PART_CHECKSUM_MISMATCH
   \<and> skip_part list_read_body sum_checksum
         (small_put\<lparr>checksums_list := [[], [], []]\<rparr>) [9, 2, 3, 4, 5, 6, 7, 8, 9, 10] 0
       = Ok [5, 6, 7, 8, 9, 10]"
proof -
  have c: "checksum_algorithm (base small_put) = AWS_SCA_CRC32C"
    "checksums_list small_put ! unat (0 :: 32 word) = [10]"
    "unat (0 :: 32 word) < length (checksums_list small_put)"
    "sum_checksum AWS_SCA_CRC32C [1, 2, 3, 4] = Some [10]"
    "sum_checksum AWS_SCA_CRC32C [9, 2, 3, 4] = Some [18]"
    by (simp_all add: small_put_def listed_put_def resumed_put_def aws_mem_calloc_def
        aws_s3_meta_request_init_base_def resume_options_def fresh_options_def sum_checksum_def)
  have sz': "s_compute_request_body_size (small_put\<lparr>checksums_list := [[], [], []]\<rparr>) (0 + 1) = Ok 4"
    by (simp add: s_compute_request_body_size_def small_put_def)
  have c': "unat (0 :: 32 word) < length (checksums_list (small_put\<lparr>checksums_list := [[], [], []]\<rparr>))"
    "checksums_list (small_put\<lparr>checksums_list := [[], [], []]\<rparr>) ! unat (0 :: 32 word) = []"
    by simp_all
  from skipped_part_checksum [where read_body = list_read_body and checksum_compute = sum_checksum
      and stream = "[1, 2, 3, 4, 5, 6, 7, 8, 9, 10]", OF small_put_size small_read(1)] c
  have ok: "skip_part list_read_body sum_checksum small_put [1, 2, 3, 4, 5, 6, 7, 8, 9, 10] 0
       = Ok [5, 6, 7, 8, 9, 10]"
    by simp
  from skipped_part_checksum [where read_body = list_read_body and checksum_compute = sum_checksum
      and stream = "[9, 2, 3, 4, 5, 6, 7, 8, 9, 10]", OF small_put_size small_read(2)] c
  have bad: "skip_part list_read_body sum_checksum small_put [9, 2, 3, 4, 5, 6, 7, 8, 9, 10] 0
       = Err AWS_ERROR_S3_RESUMED_PART_CHECKSUM_MISMATCH"
    by simp
  from skipped_part_checksum [where read_body = list_read_body and checksum_compute = sum_checksum
      and stream = "[9, 2, 3, 4, 5, 6, 7, 8, 9, 10]", OF sz' small_read(2)] c'
  have none: "skip_part list_read_body sum_checksum
         (small_put\<lparr>checksums_list := [[], [], []]\<rparr>) [9, 2, 3, 4, 5, 6, 7, 8, 9, 10] 0
       = Ok [5, 6, 7, 8, 9, 10]"
    by simp
  from small_put_size small_read c ok bad none show ?thesis by simp
qed

subsection \<open>pause\<close>

lemma double_of_nat_exact:
  assumes "n < 2 ^ 53"
  shows "double_of_nat n = of_nat n"
  using assms by (simp add: double_of_nat_def double_exponent.simps [of n])

lemma double_of_uint32:
  "double_of_nat (unat (w :: 32 word)) = of_nat (unat w)"
proof -
  have "unat w < 2 ^ 32"
    using unsigned_less [of w, where ?'a = nat] by simp
  also have "(2 :: nat) ^ 32 < 2 ^ 53" by simp
  finally show ?thesis by (rule double_of_nat_exact)
qed

text \<open>
  \<open>pause\<close> after a failure: part 1 of the fresh put failed with an error of the HTTP layer,
  which stays the finish result; \<open>pause\<close> returns a token and does not mark the meta request
  as PAUSED.
\<close>

lemma pause_keeps_earlier_failure:
  "run constant_json_string (start fresh_put) (take 4 failing_run)
     = Some \<lparr>put = failed_put, in_flight = [],
             sent_requests =
               [tag_request AWS_S3_AUTO_RANGED_PUT_REQUEST_TAG_CREATE_MULTIPART_UPLOAD,
                part_request 1]\<rparr>
   \<and> s_s3_auto_ranged_put_pause constant_json_string failed_put
       = Ok (failed_put, Some ''serialized'', AWS_OP_SUCCESS)
   \<and> finish_result_error_code (base failed_put) = AWS_ERROR_OTHER 1
   \<and> finish_result_error_code (base failed_put) \<noteq> AWS_ERROR_S3_PAUSED"
proof -
  have "s_s3_auto_ranged_put_pause constant_json_string failed_put
       = Ok (failed_put, Some ''serialized'', AWS_OP_SUCCESS)"
    by (simp add: s_s3_auto_ranged_put_pause_def failed_put_def fresh_put_def
        aws_mem_calloc_def constant_json_string_def set_fail_synced_def
        aws_s3_meta_request_set_fail_synced_def)
  moreover have "finish_result_error_code (base failed_put) = AWS_ERROR_OTHER 1"
    by (simp add: failed_put_def)
  ultimately show ?thesis
    using failing_run_reaches by simp
qed

text \<open>
  Where \<open>pause\<close> returns. With an upload id stored and \<open>create_multipart_upload_completed\<close>
  true, \<open>pause\<close> hands the token object to the serialiser, and \<open>out_token\<close> is what the
  serialiser makes of it (no token, and \<open>AWS_OP_ERR\<close>, when it fails); with
  \<open>create_multipart_upload_completed\<close> false there is no token, whatever the upload id. The object has exactly the fields \<open>type\<close> =
  \<open>AWS_S3_META_REQUEST_TYPE_PUT_OBJECT\<close>, \<open>multipart_upload_id\<close> = the stored upload id,
  \<open>partition_size\<close> = the part size as a double (the part size itself below \<open>2 ^ 53\<close>) and
  \<open>total_num_parts\<close> = the stored number of parts. In these cases \<open>pause\<close> leaves the meta
  request with a finish result: PAUSED when none was set before, the earlier one otherwise.
\<close>

lemma pause_with_upload_id:
  "(create_multipart_upload_completed arp \<and> upload_id arp = Some uid \<longrightarrow>
      s_s3_auto_ranged_put_pause json_string arp
        = Ok (set_fail_synced arp AWS_ERROR_S3_PAUSED,
              json_string (pause_token_object arp uid),
              if json_string (pause_token_object arp uid) = None then AWS_OP_ERR
              else AWS_OP_SUCCESS))
   \<and> (\<not> create_multipart_upload_completed arp \<longrightarrow>
      s_s3_auto_ranged_put_pause json_string arp
        = Ok (set_fail_synced arp AWS_ERROR_S3_PAUSED, None, AWS_OP_SUCCESS))
   \<and> finish_result_set (base (set_fail_synced arp AWS_ERROR_S3_PAUSED))
   \<and> (\<not> finish_result_set (base arp) \<longrightarrow>
        finish_result_error_code (base (set_fail_synced arp AWS_ERROR_S3_PAUSED))
          = AWS_ERROR_S3_PAUSED)
   \<and> (finish_result_set (base arp) \<longrightarrow> set_fail_synced arp AWS_ERROR_S3_PAUSED = arp)
   \<and> (unat (part_size (base arp)) < 2 ^ 53 \<longrightarrow>
        double_of_nat (unat (part_size (base arp))) = of_nat (unat (part_size (base arp))))"
proof (intro conjI impI)
  assume a: "create_multipart_upload_completed arp \<and> upload_id arp = Some uid"
  then show "s_s3_auto_ranged_put_pause json_string arp
        = Ok (set_fail_synced arp AWS_ERROR_S3_PAUSED,
              json_string (pause_token_object arp uid),
              if json_string (pause_token_object arp uid) = None then AWS_OP_ERR
              else AWS_OP_SUCCESS)"
    by (auto simp: s_s3_auto_ranged_put_pause_def pause_token_object_def double_of_uint32
        split: option.splits)
next
  assume "\<not> create_multipart_upload_completed arp"
  then show "s_s3_auto_ranged_put_pause json_string arp
        = Ok (set_fail_synced arp AWS_ERROR_S3_PAUSED, None, AWS_OP_SUCCESS)"
    by (simp add: s_s3_auto_ranged_put_pause_def)
next
  show "finish_result_set (base (set_fail_synced arp AWS_ERROR_S3_PAUSED))"
    by (rule set_fail_synced_base)
next
  assume "\<not> finish_result_set (base arp)"
  then show "finish_result_error_code (base (set_fail_synced arp AWS_ERROR_S3_PAUSED))
          = AWS_ERROR_S3_PAUSED"
    by (rule set_fail_synced_base)
next
  assume "finish_result_set (base arp)"
  then show "set_fail_synced arp AWS_ERROR_S3_PAUSED = arp"
    by (simp add: set_fail_synced_def aws_s3_meta_request_set_fail_synced_def)
next
  assume "unat (part_size (base arp)) < 2 ^ 53"
  then show "double_of_nat (unat (part_size (base arp))) = of_nat (unat (part_size (base arp)))"
    by (rule double_of_nat_exact)
qed

lemma pause_with_upload_id_example:
  "create_multipart_upload_completed listed_put \<and> upload_id listed_put = Some ''abc''
   \<and> \<not> finish_result_set (base listed_put)
   \<and> unat (part_size (base listed_put)) < 2 ^ 53
   \<and> pause_token_object listed_put ''abc'' = token_abc
   \<and> s_s3_auto_ranged_put_pause constant_json_string listed_put
       = Ok (set_fail_synced listed_put AWS_ERROR_S3_PAUSED, Some ''serialized'', AWS_OP_SUCCESS)
   \<and> finish_result_error_code (base (set_fail_synced listed_put AWS_ERROR_S3_PAUSED))
       = AWS_ERROR_S3_PAUSED
   \<and> \<not> create_multipart_upload_completed fresh_put
   \<and> s_s3_auto_ranged_put_pause constant_json_string fresh_put
       = Ok (set_fail_synced fresh_put AWS_ERROR_S3_PAUSED, None, AWS_OP_SUCCESS)
   \<and> finish_result_set (base failed_put)
   \<and> set_fail_synced failed_put AWS_ERROR_S3_PAUSED = failed_put"
proof -
  have h: "create_multipart_upload_completed listed_put" "upload_id listed_put = Some ''abc''"
    "\<not> finish_result_set (base listed_put)" "unat (part_size (base listed_put)) < 2 ^ 53"
    "\<not> create_multipart_upload_completed fresh_put" "finish_result_set (base failed_put)"
    "part_size (base listed_put) = 8388608" "total_num_parts listed_put = 4"
    by (simp_all add: listed_put_def resumed_put_def fresh_put_def failed_put_def
        aws_mem_calloc_def aws_s3_meta_request_init_base_def)
  have tok: "pause_token_object listed_put ''abc'' = token_abc"
    using pause_with_upload_id [of listed_put "''abc''" constant_json_string] h
    by (simp add: pause_token_object_def token_abc_def)
  from pause_with_upload_id [of listed_put "''abc''" constant_json_string]
    pause_with_upload_id [of fresh_put "''abc''" constant_json_string]
    pause_with_upload_id [of failed_put "''abc''" constant_json_string] h tok
  show ?thesis
    by (simp add: constant_json_string_def)
qed

lemma create_failed_run_reaches:
  "run constant_json_string (start fresh_put) create_failed_run =
     Some \<lparr>put = create_failed_put, in_flight = [],
           sent_requests =
             [tag_request AWS_S3_AUTO_RANGED_PUT_REQUEST_TAG_CREATE_MULTIPART_UPLOAD]\<rparr>"
  by code_simp

lemma create_failed_run_pause:
  "run constant_json_string (start fresh_put) (create_failed_run @ [Pause]) = None"
  by code_simp

lemma pause_null_dereference:
  assumes "create_multipart_upload_completed arp" and "upload_id arp = None"
  shows "s_s3_auto_ranged_put_pause json_string arp = Crash Null_dereference"
  using assms by (simp add: s_s3_auto_ranged_put_pause_def)

text \<open>
  Claim C4 fails on the code. The fresh put (25 MiB in four parts, built by the constructor
  without a resume token) sends its create-multipart-upload request, which comes back with an
  error. \<^verbatim>\<open>s_s3_auto_ranged_put_request_finished\<close> sets
  \<open>create_multipart_upload_completed\<close> for a failed request as well and stores no upload id.
  \<open>pause\<close> tests only that flag and passes the NULL upload id to
  \<^verbatim>\<open>aws_byte_cursor_from_string\<close>, which reads through it: for every serialiser \<open>pause\<close>
  ends in a fault, with no token and no PAUSED mark, where the claim has it produce a token
  (the flag is true) and mark the meta request as PAUSED in all cases.
\<close>

theorem pause_after_failed_create:
  "aws_s3_meta_request_auto_ranged_put_new 5242880 10000 8388608 26214400 4 fresh_options
     = Ok fresh_put
   \<and> run constant_json_string (start fresh_put) create_failed_run
       = Some \<lparr>put = create_failed_put, in_flight = [],
               sent_requests =
                 [tag_request AWS_S3_AUTO_RANGED_PUT_REQUEST_TAG_CREATE_MULTIPART_UPLOAD]\<rparr>
   \<and> create_multipart_upload_completed create_failed_put
   \<and> upload_id create_failed_put = None
   \<and> (\<forall>json_string.
         s_s3_auto_ranged_put_pause json_string create_failed_put = Crash Null_dereference)
   \<and> run constant_json_string (start fresh_put) (create_failed_run @ [Pause]) = None"
proof -
  have c: "create_multipart_upload_completed create_failed_put"
    and u: "upload_id create_failed_put = None"
    by (simp_all add: create_failed_put_def fresh_put_def aws_mem_calloc_def)
  from fresh_put_new create_failed_run_reaches create_failed_run_pause c u
    pause_null_dereference [OF c u]
  show ?thesis by simp
qed

subsection \<open>The resume token\<close>

lemma ceil_int:
  assumes "0 < b"
  shows "- (- int a div int b) = int (a div b) + (if a mod b = 0 then 0 else 1)"
proof -
  have m: "int a mod int b = int (a mod b)"
    by (rule of_nat_mod [symmetric])
  have d: "int a div int b = int (a div b)"
    by (rule of_nat_div [symmetric])
  have b: "int b \<noteq> 0" using assms by simp
  show ?thesis
    unfolding zdiv_zminus1_eq_if [OF b] m d by simp
qed

lemma ceiling_div_nat:
  assumes "0 < b"
  shows "nat \<lceil>(of_nat a :: rat) / of_nat b\<rceil> = a div b + (if a mod b = 0 then 0 else 1)"
proof -
  have "\<lceil>(of_nat a :: rat) / of_nat b\<rceil> = \<lceil>(of_int (int a) :: rat) / of_int (int b)\<rceil>"
    by simp
  also have "\<dots> = - (- int a div int b)"
    by (rule ceiling_divide_eq_div)
  also have "\<dots> = int (a div b) + (if a mod b = 0 then 0 else 1)"
    by (rule ceil_int [OF assms])
  finally have "\<lceil>(of_nat a :: rat) / of_nat b\<rceil> = int (a div b + (if a mod b = 0 then 0 else 1))"
    by simp
  then show ?thesis by (simp only: nat_int)
qed

lemma double_to_size_t_of_nat:
  assumes "n < 2 ^ 64"
  shows "double_to_size_t (of_nat n) = Some (word_of_nat n)"
proof -
  have "(of_nat n :: rat) < of_nat (2 ^ 64)"
    using assms by (simp only: of_nat_less_iff)
  then have "\<not> (2 :: rat) ^ 64 \<le> of_nat n" by simp
  moreover have "\<not> (of_nat n :: rat) \<le> - 1"
    by (metis neg_0_le_iff_le not_one_le_zero of_nat_0_le_iff order_trans)
  moreover have "\<not> (of_nat n :: rat) < 0" by simp
  ultimately show ?thesis
    by (simp add: double_to_size_t_def)
qed

lemma double_to_uint32_t_of_nat:
  assumes "n < 2 ^ 32"
  shows "double_to_uint32_t (of_nat n) = Some (word_of_nat n)"
proof -
  have "(of_nat n :: rat) < of_nat (2 ^ 32)"
    using assms by (simp only: of_nat_less_iff)
  then have "\<not> (2 :: rat) ^ 32 \<le> of_nat n" by simp
  moreover have "\<not> (of_nat n :: rat) \<le> - 1"
    by (metis neg_0_le_iff_le not_one_le_zero of_nat_0_le_iff order_trans)
  moreover have "\<not> (of_nat n :: rat) < 0" by simp
  ultimately show ?thesis
    by (simp add: double_to_uint32_t_def)
qed

lemma unat_of_nat64:
  assumes "n < 2 ^ 64"
  shows "unat (word_of_nat n :: 64 word) = n"
  using assms by (simp add: unat_of_nat)

lemma unat_of_nat32:
  assumes "n < 2 ^ 32"
  shows "unat (word_of_nat n :: 32 word) = n"
  using assms by (simp add: unat_of_nat)

lemma parse_token_fields:
  assumes "map_of members ''type'' = Some (JSON_String type_value)"
    and "map_of members ''multipart_upload_id'' = Some (JSON_String uid)"
    and "map_of members ''partition_size'' = Some (JSON_Number (of_nat ps))"
    and "map_of members ''total_num_parts'' = Some (JSON_Number (of_nat tn))"
    and "ps < 2 ^ 64" and "tn < 2 ^ 32"
  shows "s_parse_resume_info_from_token min_size max_parts (Some (Some (JSON_Object members))) outs
     = (if type_value \<noteq> ''AWS_S3_META_REQUEST_TYPE_PUT_OBJECT'' \<or> ps < unat min_size
           \<or> unat max_parts < tn
        then Err AWS_ERROR_INVALID_ARGUMENT
        else Ok (Some uid, word_of_nat ps, word_of_nat tn))"
  using assms
  by (auto simp: s_parse_resume_info_from_token_def aws_json_value_get_from_object_def
      aws_json_value_get_number_def aws_json_value_get_string_def
      double_to_size_t_of_nat double_to_uint32_t_of_nat word_less_nat_alt
      unat_of_nat64 unat_of_nat32)

lemma load_part_count:
  fixes content_len :: "64 word"
  assumes "0 < ps" and "ps < 2 ^ 64" and "unat content_len div ps < 2 ^ 32 - 1"
  shows "unat (if content_len mod word_of_nat ps > 0
               then (ucast (content_len div word_of_nat ps) :: 32 word) + 1
               else ucast (content_len div word_of_nat ps))
         = unat content_len div ps + (if unat content_len mod ps = 0 then 0 else 1)"
proof -
  let ?p = "word_of_nat ps :: 64 word"
  have p: "unat ?p = ps" using assms(2) by (rule unat_of_nat64)
  have q: "unat (content_len div ?p) = unat content_len div ps"
    by (simp add: unat_div p)
  have m: "unat (content_len mod ?p) = unat content_len mod ps"
    by (simp add: unat_mod p)
  have u: "unat (ucast (content_len div ?p) :: 32 word) = unat content_len div ps"
  proof -
    have "unat (ucast (content_len div ?p) :: 32 word) = unat (content_len div ?p) mod 2 ^ 32"
      by (simp add: unsigned_ucast_eq take_bit_eq_mod)
    with q assms(3) show ?thesis by simp
  qed
  have inc: "unat ((ucast (content_len div ?p) :: 32 word) + 1) = Suc (unat content_len div ps)"
    using assms(3) u by (simp add: unat_word_ariths)
  have "(content_len mod ?p > 0) = (unat content_len mod ps \<noteq> 0)"
    using m by (simp add: word_greater_zero_iff unat_eq_0 flip: m)
  with u inc show ?thesis by simp
qed

text \<open>
  What the validation of a resume token does when the token's numbers are whole and in range
  and the number of parts of the body fits 32 bits: construction fails with INVALID_ARGUMENT
  unless the type is the put literal, the partition size is at least the minimum, the number
  of parts at most the maximum and equal to the content length divided by the partition size,
  rounded up; and then it succeeds and adopts the token's upload id, partition size and
  number of parts.
\<close>

lemma resume_token_validation:
  assumes tok: "resume_token options = Some (Some (JSON_Object members))"
    and f: "map_of members ''type'' = Some (JSON_String type_value)"
      "map_of members ''multipart_upload_id'' = Some (JSON_String uid)"
      "map_of members ''partition_size'' = Some (JSON_Number (of_nat ps))"
      "map_of members ''total_num_parts'' = Some (JSON_Number (of_nat tn))"
    and r: "0 < ps" "ps < 2 ^ 64" "tn < 2 ^ 32"
    and path: "request_path (message options) \<noteq> None"
    and fit: "unat content_len div ps < 2 ^ 32 - 1"
  shows "(type_value = ''AWS_S3_META_REQUEST_TYPE_PUT_OBJECT'' \<and> unat min_size \<le> ps
            \<and> tn \<le> unat max_parts
            \<and> nat \<lceil>(of_nat (unat content_len) :: rat) / of_nat ps\<rceil> = tn \<longrightarrow>
          (\<exists>arp. aws_s3_meta_request_auto_ranged_put_new min_size max_parts part_sz content_len
                    num_parts options = Ok arp
                \<and> upload_id arp = Some uid \<and> unat (part_size (base arp)) = ps
                \<and> unat (total_num_parts arp) = tn))
       \<and> (\<not> (type_value = ''AWS_S3_META_REQUEST_TYPE_PUT_OBJECT'' \<and> unat min_size \<le> ps
              \<and> tn \<le> unat max_parts
              \<and> nat \<lceil>(of_nat (unat content_len) :: rat) / of_nat ps\<rceil> = tn) \<longrightarrow>
          aws_s3_meta_request_auto_ranged_put_new min_size max_parts part_sz content_len
            num_parts options = Err AWS_ERROR_INVALID_ARGUMENT)"
proof -
  let ?parse = "s_parse_resume_info_from_token min_size max_parts
                  (Some (Some (JSON_Object members))) (None, part_sz, num_parts)"
  let ?ok = "type_value = ''AWS_S3_META_REQUEST_TYPE_PUT_OBJECT'' \<and> unat min_size \<le> ps
               \<and> tn \<le> unat max_parts"
  let ?p = "word_of_nat ps :: 64 word"
  let ?t = "word_of_nat tn :: 32 word"
  let ?n = "if content_len mod ?p > 0 then (ucast (content_len div ?p) :: 32 word) + 1
            else ucast (content_len div ?p)"
  have parse: "?parse = (if ?ok then Ok (Some uid, ?p, ?t) else Err AWS_ERROR_INVALID_ARGUMENT)"
    unfolding parse_token_fields [OF f r(2,3)] by auto
  have p: "unat ?p = ps" using r(2) by (rule unat_of_nat64)
  have t: "unat ?t = tn" using r(3) by (rule unat_of_nat32)
  have pnz: "?p \<noteq> 0" using p r(1) by (auto simp: unat_eq_0)
  have n: "unat ?n = nat \<lceil>(of_nat (unat content_len) :: rat) / of_nat ps\<rceil>"
    unfolding load_part_count [OF r(1,2) fit] ceiling_div_nat [OF r(1)] ..
  have "(?t \<noteq> ?n) = (unat ?t \<noteq> unat ?n)"
    by (rule arg_cong [where f = Not], rule word_unat_eq_iff)
  then have neq: "(?t \<noteq> ?n) = (tn \<noteq> nat \<lceil>(of_nat (unat content_len) :: rat) / of_nat ps\<rceil>)"
    unfolding t n .
  from path obtain rp where rp: "request_path (message options) = Some rp" by auto
  show ?thesis
  proof (cases ?ok)
    case False
    with parse have "?parse = Err AWS_ERROR_INVALID_ARGUMENT" by simp
    then have "aws_s3_meta_request_auto_ranged_put_new min_size max_parts part_sz content_len
            num_parts options = Err AWS_ERROR_INVALID_ARGUMENT"
      by (simp add: aws_s3_meta_request_auto_ranged_put_new_def tok)
    with False show ?thesis by auto
  next
    case True
    with parse have ok: "?parse = Ok (Some uid, ?p, ?t)" by simp
    show ?thesis
    proof (cases "tn = nat \<lceil>(of_nat (unat content_len) :: rat) / of_nat ps\<rceil>")
      case False
      with neq have "?t \<noteq> ?n" by simp
      then have "aws_s3_meta_request_auto_ranged_put_new min_size max_parts part_sz content_len
            num_parts options = Err AWS_ERROR_INVALID_ARGUMENT"
        using pnz
        by (simp add: aws_s3_meta_request_auto_ranged_put_new_def tok ok
            s_load_persistable_state_def Let_def)
      with False show ?thesis by auto
    next
      case eq: True
      with neq have same: "?t = ?n" by simp
      have "\<exists>arp. aws_s3_meta_request_auto_ranged_put_new min_size max_parts part_sz content_len
                    num_parts options = Ok arp
                \<and> upload_id arp = Some uid \<and> part_size (base arp) = ?p
                \<and> total_num_parts arp = ?t"
        using pnz same rp
        by (simp add: aws_s3_meta_request_auto_ranged_put_new_def tok ok
            s_load_persistable_state_def Let_def aws_mem_calloc_def
            aws_s3_meta_request_init_base_def)
      with p t True eq show ?thesis by auto
    qed
  qed
qed

lemma parse_truncated_token:
  "s_parse_resume_info_from_token 5242880 10000 (Some (Some truncated_token)) (None, ps, n)
     = Ok (Some ''abc'', 5242880, 4)"
  by (simp add: s_parse_resume_info_from_token_def truncated_token_def
      aws_json_value_get_from_object_def aws_json_value_get_number_def
      aws_json_value_get_string_def double_to_size_t_def double_to_uint32_t_def)

text \<open>
  Claim C2. For every resume token supplied at construction,
  \<open>aws_s3_meta_request_auto_ranged_put_new\<close> should fail with INVALID_ARGUMENT unless the
  type is the put literal, the partition size is at least the minimum part size, the number of
  parts is at most the maximum and \<open>ceil(content_length / partition_size) = total_num_parts\<close>.
  The code computes the number of parts in 32 bits: for a body of \<open>5242880 * (2 ^ 32 + 4)\<close>
  bytes and a token of 4 parts of 5242880 bytes, the body has 4294967300 parts, the quotient
  cut to 32 bits is 4, and the construction succeeds with the token's 4 parts.
\<close>

theorem resume_token_part_count_truncated:
  "(case aws_s3_meta_request_auto_ranged_put_new 5242880 10000 8388608 22517998157824000 4
           truncated_options of
      Ok arp \<Rightarrow> total_num_parts arp = 4 \<and> part_size (base arp) = 5242880
                \<and> upload_id arp = Some ''abc'' \<and> content_length arp = 22517998157824000
    | Err e \<Rightarrow> False
    | Crash f \<Rightarrow> False)
   \<and> unat (22517998157824000 :: 64 word) div unat (5242880 :: 64 word) = 4294967300
   \<and> unat (22517998157824000 :: 64 word) mod unat (5242880 :: 64 word) = 0
   \<and> (ucast ((22517998157824000 :: 64 word) div 5242880) :: 32 word) = 4"
  by (simp add: aws_s3_meta_request_auto_ranged_put_new_def truncated_options_def
      fresh_options_def parse_truncated_token s_load_persistable_state_def
      aws_mem_calloc_def aws_s3_meta_request_init_base_def)

end
